theory Spec2Isabelle
  imports Main "HOL-Library.Word"
begin

section \<open>Data model of cms.c\<close>

text \<open>
  A shallow embedding of \<^verbatim>\<open>src/src/cms.c\<close> (KSBA, cryptographic message syntax).
  Every C function of the file that the properties below talk about is a HOL function
  of the same name. A C function that changes the container returns the changed
  container next to its error code, since the changes stay when an error is returned.
  The collaborators that live in other files of the library (the BER/DER codec, the
  reader and writer, the CMS parser proper) are fields of the record \<open>env\<close>, so that
  every theorem holds for whatever they compute.
\<close>

type_synonym byte = "8 word"

text \<open>
  \<^verbatim>\<open>KsbaError\<close>. \<open>KSBA_No_Error\<close> is the value 0 that \<^verbatim>\<open>if (err)\<close> tests for.
  \<open>KSBA_Other_Error\<close> stands for any further code (the header with the enumeration is
  not among the sources): an error of a collaborator, or the \<^verbatim>\<open>-1\<close> that
  \<^verbatim>\<open>ksba_cms_hash_signed_attrs\<close> returns.
\<close>

datatype KsbaError =
    KSBA_No_Error
  | KSBA_General_Error
  | KSBA_Out_Of_Core
  | KSBA_Invalid_Value
  | KSBA_Not_Implemented
  | KSBA_Conflict
  | KSBA_No_Data
  | KSBA_No_Value
  | KSBA_Bug
  | KSBA_Missing_Action
  | KSBA_Missing_Value
  | KSBA_Unknown_CMS_Object
  | KSBA_Unsupported_CMS_Object
  | KSBA_Invalid_CMS_Object
  | KSBA_Invalid_State
  | KSBA_Invalid_Index
  | KSBA_Value_Not_Found
  | KSBA_Duplicate_Value
  | KSBA_Element_Not_Found
  | KSBA_Other_Error int

text \<open>
  \<^verbatim>\<open>KsbaStopReason\<close>. \<open>KSBA_SR_NONE\<close> is the value 0 of a freshly allocated (zeroed)
  container, tested by \<^verbatim>\<open>if (!cms->stop_reason)\<close>. A C enumeration can hold any
  value of its integer type: \<open>KSBA_SR_Undefined k\<close> is a stored value that is none
  of the enumerators.
\<close>

datatype KsbaStopReason =
    KSBA_SR_NONE
  | KSBA_SR_RUNNING
  | KSBA_SR_GOT_CONTENT
  | KSBA_SR_NEED_HASH
  | KSBA_SR_BEGIN_DATA
  | KSBA_SR_END_DATA
  | KSBA_SR_READY
  | KSBA_SR_NEED_SIG
  | KSBA_SR_Undefined int

datatype KsbaContentType =
    KSBA_CT_NONE
  | KSBA_CT_DATA
  | KSBA_CT_SIGNED_DATA
  | KSBA_CT_ENVELOPED_DATA
  | KSBA_CT_DIGESTED_DATA
  | KSBA_CT_ENCRYPTED_DATA
  | KSBA_CT_AUTH_DATA

text \<open>The ten static content handlers; a function pointer is the name of its target.\<close>

datatype handler =
    H_ct_parse_data
  | H_ct_parse_signed_data
  | H_ct_parse_enveloped_data
  | H_ct_parse_digested_data
  | H_ct_parse_encrypted_data
  | H_ct_build_data
  | H_ct_build_signed_data
  | H_ct_build_enveloped_data
  | H_ct_build_digested_data
  | H_ct_build_encrypted_data

text \<open>
  How a call ends when it does not return: a failed \<^verbatim>\<open>assert\<close> aborts the process
  (in a build without \<^verbatim>\<open>NDEBUG\<close>), a
  \<^verbatim>\<open>strcmp\<close> with a null pointer and a read outside a buffer (or of a buffer that is
  not there) have no defined behaviour.
\<close>

datatype fault = Assertion_Failed | Null_Dereference | Out_Of_Bounds

datatype 'a outcome = Returns 'a | Faults fault

subsection \<open>ASN.1 nodes\<close>

text \<open>
  The node types and tag classes cms.c names. \<open>TYPE_NONE\<close> is the tag 0 that cms.c
  writes as a literal \<^verbatim>\<open>0\<close>; \<open>TYPE_OTHER\<close> is any type cms.c does not name.
\<close>

datatype node_type =
    TYPE_NONE
  | TYPE_INTEGER
  | TYPE_OCTET_STRING
  | TYPE_NULL
  | TYPE_OBJECT_ID
  | TYPE_SEQUENCE
  | TYPE_SET
  | TYPE_SET_OF
  | TYPE_OTHER nat

datatype tag_class = CLASS_UNIVERSAL | CLASS_APPLICATION | CLASS_CONTEXT | CLASS_PRIVATE

text \<open>
  \<^verbatim>\<open>struct asn_node_struct\<close>, with the fields cms.c reads: the type, the offset of
  the TLV in its image (\<^verbatim>\<open>-1\<close> when unknown), the header length, the content
  length, and the links \<^verbatim>\<open>down\<close> (first child) and \<^verbatim>\<open>right\<close> (next sibling).
  A tree is a value; a null link is \<open>None\<close>.
\<close>

datatype AsnNode =
  AsnNode (n_type: node_type) (n_off: int) (n_nhdr: int) (n_len: int)
          (n_down: "AsnNode option") (n_right: "AsnNode option")

text \<open>
  A pointer to a node inside a tree that is about to be changed through it is the way
  from the root of that tree to the node.
\<close>

datatype link = DOWN | RIGHT

type_synonym node_ref = "link list"

fun node_at :: "AsnNode \<Rightarrow> node_ref \<Rightarrow> AsnNode option" where
  "node_at n [] = Some n"
| "node_at n (DOWN # ls) = (case n_down n of None \<Rightarrow> None | Some d \<Rightarrow> node_at d ls)"
| "node_at n (RIGHT # ls) = (case n_right n of None \<Rightarrow> None | Some r \<Rightarrow> node_at r ls)"

text \<open>
  Reading \<open>n\<close> bytes at \<open>image + start\<close>: defined only when the image is there and
  the region lies inside it.
\<close>

definition mem_read :: "byte list option \<Rightarrow> int \<Rightarrow> int \<Rightarrow> byte list option" where
  "mem_read img start n =
     (case img of
        None \<Rightarrow> None
      | Some bs \<Rightarrow>
          if 0 \<le> start \<and> 0 \<le> n \<and> start + n \<le> int (length bs)
          then Some (take (nat n) (drop (nat start) bs))
          else None)"

subsection \<open>The container\<close>

text \<open>\<^verbatim>\<open>KsbaCert\<close>: cms.c reads \<^verbatim>\<open>cert->root\<close> and \<^verbatim>\<open>cert->image\<close>.\<close>

record ksba_cert =
  cert_root :: "AsnNode option"
  cert_image :: "byte list option"

text \<open>
  \<^verbatim>\<open>struct certlist_s\<close>, one signer record. \<open>msg_digest\<close> is the fixed buffer,
  \<open>msg_digest_len\<close> the number of bytes set in it (0 = no digest preset).
\<close>

record certlist_s =
  cert :: "ksba_cert option"
  msg_digest_len :: nat
  msg_digest :: "byte list"
  attr_root :: "AsnNode option"
  attr_image :: "byte list option"

text \<open>The reader and the writer are known to cms.c only as pointers handed on.\<close>

record ksba_reader =
  r_input :: "byte list"

record ksba_writer =
  w_output :: "byte list"

text \<open>
  \<^verbatim>\<open>struct ksba_cms_s\<close>. The two linked lists are lists, head first; an element of
  \<open>digest_algos\<close> is the \<^verbatim>\<open>oid\<close> pointer of a \<^verbatim>\<open>struct oidlist_s\<close>. The cached
  digest algorithm is kept as the address of its string (see \<open>str_heap\<close>), because
  a property below is about the identity of the pointer. \<open>hash_fnc\<close> is the
  registered callback, named by a number.
\<close>

record cms =
  reader :: "ksba_reader option"
  writer :: "ksba_writer option"
  stop_reason :: KsbaStopReason
  content_oid :: "string option"
  content_ct :: KsbaContentType
  content_handler :: "handler option"
  encap_cont_type :: "string option"
  digest_algos :: "string option list"
  cert_list :: "certlist_s list"
  signer_info_root :: "AsnNode option"
  signer_info_image :: "byte list option"
  signer_info_cache_digest_algo :: "nat option"
  data_digest :: "byte list option"
  detached_signature :: bool
  hash_fnc :: "nat option"
  hash_fnc_arg :: "nat option"

text \<open>\<^verbatim>\<open>KsbaAsnTree\<close>: cms.c reads \<^verbatim>\<open>cms_tree->parse_tree\<close>.\<close>

record ksba_asn_tree =
  parse_tree :: "AsnNode option"

subsection \<open>The collaborators\<close>

text \<open>
  The functions cms.c calls in other files of the library. One that returns a
  \<^verbatim>\<open>KsbaError\<close> and fills an output parameter returns the pair; one that changes
  an object returns the changed object. A function that changes a node of a tree
  gets the tree and the way to the node, and returns the changed tree.
  \<open>oid_node_to_str\<close> gives the text of the string it allocates (\<open>None\<close> for
  \<^verbatim>\<open>NULL\<close>). The three allocators say whether the request succeeds: \<open>xtrymalloc\<close>
  by the number of bytes, \<open>xtry_struct\<close> (an \<^verbatim>\<open>xtrycalloc\<close> or \<^verbatim>\<open>xtrymalloc\<close> of
  one structure) by the name of the structure, \<open>xtrystrdup\<close> by the string copied.
  \<^verbatim>\<open>_ksba_der_encode_tree (root, &image, NULL)\<close> writes the offsets and lengths of the
  encoding into the nodes of the tree it is given: it returns the tree so changed
  next to the image. \<open>msg_digest_dim\<close> is
  \<^verbatim>\<open>DIM(cl->msg_digest)\<close>, the capacity of the digest buffer (declared in cms.h).

  Two facts of the build are parameters as well: \<open>ndebug\<close> says whether the file is
  compiled with \<^verbatim>\<open>NDEBUG\<close> defined, in which case \<^verbatim>\<open>assert\<close> of \<^verbatim>\<open>assert.h\<close> expands to
  nothing, and \<open>size_t_bits\<close> is the width of \<^verbatim>\<open>size_t\<close>.
\<close>

record env =
  cms_parse_content_info :: "cms \<Rightarrow> KsbaError \<times> cms"
  cms_parse_signed_data_part_1 :: "cms \<Rightarrow> KsbaError \<times> cms"
  cms_parse_signed_data_part_2 :: "cms \<Rightarrow> KsbaError \<times> cms"
  asn_find_node :: "AsnNode \<Rightarrow> string \<Rightarrow> node_ref option"
  asn_find_type_value ::
    "byte list option \<Rightarrow> AsnNode option \<Rightarrow> int \<Rightarrow> byte list \<Rightarrow> AsnNode option"
  dn_to_str :: "byte list option \<Rightarrow> AsnNode \<Rightarrow> KsbaError \<times> string option"
  oid_node_to_str :: "byte list option \<Rightarrow> AsnNode option \<Rightarrow> string option"
  xtrymalloc :: "int \<Rightarrow> bool"
  xtry_struct :: "string \<Rightarrow> bool"
  xtrystrdup :: "string \<Rightarrow> bool"
  ber_write_tl ::
    "ksba_writer option \<Rightarrow> node_type \<Rightarrow> tag_class \<Rightarrow> bool \<Rightarrow> nat
       \<Rightarrow> KsbaError \<times> ksba_writer option"
  writer_write :: "ksba_writer option \<Rightarrow> byte list \<Rightarrow> KsbaError \<times> ksba_writer option"
  oid_from_str :: "string option \<Rightarrow> KsbaError \<times> byte list"
  der_write_algorithm_identifier ::
    "ksba_writer option \<Rightarrow> string \<Rightarrow> KsbaError \<times> ksba_writer option"
  asn_create_tree :: "string \<Rightarrow> KsbaError \<times> ksba_asn_tree"
  asn_expand_tree :: "AsnNode option \<Rightarrow> string \<Rightarrow> AsnNode option"
  der_store_oid :: "AsnNode \<Rightarrow> node_ref \<Rightarrow> string \<Rightarrow> KsbaError \<times> AsnNode"
  der_store_integer :: "AsnNode \<Rightarrow> node_ref \<Rightarrow> byte list \<Rightarrow> KsbaError \<times> AsnNode"
  der_store_null :: "AsnNode \<Rightarrow> node_ref \<Rightarrow> KsbaError \<times> AsnNode"
  der_store_octet_string :: "AsnNode \<Rightarrow> node_ref \<Rightarrow> byte list \<Rightarrow> KsbaError \<times> AsnNode"
  der_encode_tree :: "AsnNode \<Rightarrow> KsbaError \<times> AsnNode \<times> byte list"
  der_copy_tree ::
    "AsnNode \<Rightarrow> node_ref option \<Rightarrow> AsnNode option \<Rightarrow> byte list option
       \<Rightarrow> KsbaError \<times> AsnNode"
  msg_digest_dim :: nat
  ndebug :: bool
  size_t_bits :: nat

text \<open>The conversion of an \<^verbatim>\<open>int\<close> to \<^verbatim>\<open>size_t\<close>.\<close>

definition to_size_t :: "env \<Rightarrow> int \<Rightarrow> int" where
  "to_size_t e n = n mod 2 ^ size_t_bits e"

text \<open>
  \<^verbatim>\<open>_ksba_asn_find_node (root, name)\<close>: the node found, with the way to it from
  \<open>root\<close>. A null root finds nothing.
\<close>

definition ksba_asn_find_node ::
  "env \<Rightarrow> AsnNode option \<Rightarrow> string \<Rightarrow> (node_ref \<times> AsnNode) option" where
  "ksba_asn_find_node e root name =
     (case root of
        None \<Rightarrow> None
      | Some r \<Rightarrow>
          (case asn_find_node e r name of
             None \<Rightarrow> None
           | Some p \<Rightarrow> (case node_at r p of None \<Rightarrow> None | Some n \<Rightarrow> Some (p, n))))"

subsection \<open>The content dispatcher\<close>

record content_handler_row =
  oid :: string
  ct :: KsbaContentType
  parse_handler :: "handler option"
  build_handler :: "handler option"

text \<open>\<^verbatim>\<open>content_handlers[]\<close>; the terminating \<^verbatim>\<open>{ NULL }\<close> row is the end of the list.\<close>

definition content_handlers :: "content_handler_row list" where
  "content_handlers =
     [ \<lparr> oid = ''1.2.840.113549.1.7.1'', ct = KSBA_CT_DATA,
         parse_handler = Some H_ct_parse_data, build_handler = Some H_ct_build_data \<rparr>,
       \<lparr> oid = ''1.2.840.113549.1.7.2'', ct = KSBA_CT_SIGNED_DATA,
         parse_handler = Some H_ct_parse_signed_data,
         build_handler = Some H_ct_build_signed_data \<rparr>,
       \<lparr> oid = ''1.2.840.113549.1.7.3'', ct = KSBA_CT_ENVELOPED_DATA,
         parse_handler = Some H_ct_parse_enveloped_data,
         build_handler = Some H_ct_build_enveloped_data \<rparr>,
       \<lparr> oid = ''1.2.840.113549.1.7.5'', ct = KSBA_CT_DIGESTED_DATA,
         parse_handler = Some H_ct_parse_digested_data,
         build_handler = Some H_ct_build_digested_data \<rparr>,
       \<lparr> oid = ''1.2.840.113549.1.7.6'', ct = KSBA_CT_ENCRYPTED_DATA,
         parse_handler = Some H_ct_parse_encrypted_data,
         build_handler = Some H_ct_build_encrypted_data \<rparr>,
       \<lparr> oid = ''1.2.840.113549.1.9.16.1.2'', ct = KSBA_CT_AUTH_DATA,
         parse_handler = None, build_handler = None \<rparr> ]"

text \<open>
  The loop \<^verbatim>\<open>for (i=0; content_handlers[i].oid; i++) if (!strcmp (...)) break;\<close>:
  the first row with the OID, or \<open>None\<close> when the loop stops at the terminating row.
\<close>

fun find_content_handler :: "content_handler_row list \<Rightarrow> string \<Rightarrow> content_handler_row option" where
  "find_content_handler [] s = None"
| "find_content_handler (r # rs) s = (if oid r = s then Some r else find_content_handler rs s)"

definition oidstr_messageDigest :: string where
  "oidstr_messageDigest = ''1.2.840.113549.1.9.4''"

definition oid_messageDigest :: "byte list" where
  "oid_messageDigest = [0x2A, 0x86, 0x48, 0x86, 0xF7, 0x0D, 0x01, 0x09, 0x04]"

section \<open>The functions of cms.c\<close>

subsection \<open>Lifecycle and setters\<close>

text \<open>
  \<^verbatim>\<open>for (p = list; p && idx; p = p->next, idx--) ;\<close> leaves \<open>p\<close> at the element
  number \<open>idx\<close>, or null when the list ends first (as it does for a negative \<open>idx\<close>).
  \<open>list_walk\<close> is the element, \<open>list_walk_update\<close> the list after a change of that
  element in place.
\<close>

fun list_walk :: "'a list \<Rightarrow> int \<Rightarrow> 'a option" where
  "list_walk [] idx = None"
| "list_walk (x # xs) idx = (if idx = 0 then Some x else list_walk xs (idx - 1))"

fun list_walk_update :: "('a \<Rightarrow> 'a) \<Rightarrow> 'a list \<Rightarrow> int \<Rightarrow> 'a list option" where
  "list_walk_update f [] idx = None"
| "list_walk_update f (x # xs) idx =
     (if idx = 0 then Some (f x # xs)
      else (case list_walk_update f xs (idx - 1) of None \<Rightarrow> None | Some ys \<Rightarrow> Some (x # ys)))"

text \<open>\<^verbatim>\<open>ksba_cms_new\<close>: a zeroed container, or null.\<close>

definition ksba_cms_new :: "env \<Rightarrow> cms option" where
  "ksba_cms_new e =
     (if \<not> xtry_struct e ''ksba_cms_s'' then None
      else Some \<lparr> reader = None, writer = None, stop_reason = KSBA_SR_NONE,
                  content_oid = None, content_ct = KSBA_CT_NONE, content_handler = None,
                  encap_cont_type = None, digest_algos = [], cert_list = [],
                  signer_info_root = None, signer_info_image = None,
                  signer_info_cache_digest_algo = None, data_digest = None,
                  detached_signature = False, hash_fnc = None, hash_fnc_arg = None \<rparr>)"

definition ksba_cms_set_reader_writer ::
  "cms option \<Rightarrow> ksba_reader option \<Rightarrow> ksba_writer option \<Rightarrow> KsbaError \<times> cms option" where
  "ksba_cms_set_reader_writer cmsp r w =
     (case cmsp of
        None \<Rightarrow> (KSBA_Invalid_Value, None)
      | Some c \<Rightarrow>
          if r = None \<and> w = None then (KSBA_Invalid_Value, Some c)
          else if (r \<noteq> None \<and> reader c \<noteq> None) \<or> (w \<noteq> None \<and> writer c \<noteq> None)
          then (KSBA_Conflict, Some c)
          else (KSBA_No_Error, Some (c\<lparr>reader := r, writer := w\<rparr>)))"

definition ksba_cms_set_hash_function :: "cms option \<Rightarrow> nat option \<Rightarrow> nat option \<Rightarrow> cms option" where
  "ksba_cms_set_hash_function cmsp fnc arg =
     (case cmsp of
        None \<Rightarrow> None
      | Some c \<Rightarrow> Some (c\<lparr>hash_fnc := fnc, hash_fnc_arg := arg\<rparr>))"

text \<open>The loop of \<^verbatim>\<open>ksba_cms_set_content_type\<close>: the first row with the type.\<close>

fun find_content_type :: "content_handler_row list \<Rightarrow> KsbaContentType \<Rightarrow> content_handler_row option" where
  "find_content_type [] t = None"
| "find_content_type (r # rs) t = (if ct r = t then Some r else find_content_type rs t)"

definition ksba_cms_set_content_type ::
  "env \<Rightarrow> cms option \<Rightarrow> int \<Rightarrow> KsbaContentType \<Rightarrow> KsbaError \<times> cms option" where
  "ksba_cms_set_content_type e cmsp what type =
     (case cmsp of
        None \<Rightarrow> (KSBA_Invalid_Value, None)
      | Some c \<Rightarrow>
          if what < 0 \<or> what > 1 then (KSBA_Invalid_Value, Some c)
          else (case find_content_type content_handlers type of
                  None \<Rightarrow> (KSBA_Unknown_CMS_Object, Some c)
                | Some row \<Rightarrow>
                    (case build_handler row of
                       None \<Rightarrow> (KSBA_Unsupported_CMS_Object, Some c)
                     | Some h \<Rightarrow>
                         if \<not> xtrystrdup e (oid row) then (KSBA_Out_Of_Core, Some c)
                         else if what = 0
                         then (KSBA_No_Error,
                               Some (c\<lparr>content_oid := Some (oid row), content_ct := ct row,
                                        content_handler := Some h\<rparr>))
                         else (KSBA_No_Error, Some (c\<lparr>encap_cont_type := Some (oid row)\<rparr>)))))"

definition ksba_cms_add_digest_algo ::
  "env \<Rightarrow> cms option \<Rightarrow> string option \<Rightarrow> KsbaError \<times> cms option" where
  "ksba_cms_add_digest_algo e cmsp oidp =
     (case cmsp of
        None \<Rightarrow> (KSBA_Invalid_Value, None)
      | Some c \<Rightarrow>
          (case oidp of
             None \<Rightarrow> (KSBA_Invalid_Value, Some c)
           | Some s \<Rightarrow>
               if \<not> xtry_struct e ''oidlist_s'' then (KSBA_Out_Of_Core, Some c)
               else if \<not> xtrystrdup e s then (KSBA_Out_Of_Core, Some c)
               else (KSBA_No_Error, Some (c\<lparr>digest_algos := Some s # digest_algos c\<rparr>))))"

text \<open>
  \<^verbatim>\<open>ksba_cms_add_signer\<close> puts a zeroed signer record with the certificate at the
  head of the list. The zeroed digest buffer has \<open>msg_digest_dim\<close> bytes.
\<close>

definition ksba_cms_add_signer ::
  "env \<Rightarrow> cms option \<Rightarrow> ksba_cert option \<Rightarrow> KsbaError \<times> cms option" where
  "ksba_cms_add_signer e cmsp crt =
     (case cmsp of
        None \<Rightarrow> (KSBA_Invalid_Value, None)
      | Some c \<Rightarrow>
          if \<not> xtry_struct e ''certlist_s'' then (KSBA_Out_Of_Core, Some c)
          else (KSBA_No_Error,
                Some (c\<lparr>cert_list :=
                          \<lparr> cert = crt, msg_digest_len = 0,
                            msg_digest = replicate (msg_digest_dim e) 0,
                            attr_root = None, attr_image = None \<rparr> # cert_list c\<rparr>)))"

text \<open>
  \<^verbatim>\<open>ksba_cms_set_message_digest\<close>: \<open>digest\<close> is the caller's buffer, \<open>digest_len\<close>
  the length the caller gives. The \<^verbatim>\<open>memcpy\<close> reads \<open>digest_len\<close> bytes of it and
  overwrites the front of the record's buffer.
\<close>

definition ksba_cms_set_message_digest ::
  "env \<Rightarrow> cms option \<Rightarrow> int \<Rightarrow> byte list option \<Rightarrow> nat \<Rightarrow> (KsbaError \<times> cms option) outcome" where
  "ksba_cms_set_message_digest e cmsp idx digest digest_len =
     (case cmsp of
        None \<Rightarrow> Returns (KSBA_Invalid_Value, None)
      | Some c \<Rightarrow>
          (case digest of
             None \<Rightarrow> Returns (KSBA_Invalid_Value, Some c)
           | Some d \<Rightarrow>
               if digest_len = 0 \<or> digest_len > msg_digest_dim e
               then Returns (KSBA_Invalid_Value, Some c)
               else if idx < 0 then Returns (KSBA_Invalid_Index, Some c)
               else if list_walk (cert_list c) idx = None
               then Returns (KSBA_Invalid_Index, Some c)
               else (case mem_read (Some d) 0 (int digest_len) of
                       None \<Rightarrow> Faults Out_Of_Bounds
                     | Some bs \<Rightarrow>
                         (case list_walk_update
                                 (\<lambda>cl. cl\<lparr>msg_digest_len := digest_len,
                                          msg_digest := bs @ drop digest_len (msg_digest cl)\<rparr>)
                                 (cert_list c) idx of
                            None \<Rightarrow> Returns (KSBA_Invalid_Index, Some c)
                          | Some cls \<Rightarrow> Returns (KSBA_No_Error, Some (c\<lparr>cert_list := cls\<rparr>))))))"

definition ksba_cms_get_digest_algo_list :: "cms option \<Rightarrow> int \<Rightarrow> string option" where
  "ksba_cms_get_digest_algo_list cmsp idx =
     (case cmsp of
        None \<Rightarrow> None
      | Some c \<Rightarrow> (case list_walk (digest_algos c) idx of None \<Rightarrow> None | Some ol \<Rightarrow> ol))"

subsection \<open>Accessors of the parsed SignerInfos\<close>

text \<open>The block \<^verbatim>\<open>if (r_issuer) { ... }\<close> of \<^verbatim>\<open>ksba_cms_get_issuer_serial\<close>.\<close>

definition get_issuer :: "env \<Rightarrow> cms \<Rightarrow> KsbaError \<times> string option" where
  "get_issuer e c =
     (case ksba_asn_find_node e (signer_info_root c)
             ''SignerInfos..sid.issuerAndSerialNumber.issuer'' of
        None \<Rightarrow> (KSBA_No_Value, None)
      | Some (p, n) \<Rightarrow>
          (case n_down n of
             None \<Rightarrow> (KSBA_No_Value, None)
           | Some d \<Rightarrow>
               if n_off d = - 1 then (KSBA_General_Error, None)
               else dn_to_str e (signer_info_image c) d))"

text \<open>
  The block \<^verbatim>\<open>if (r_serial) { ... }\<close>: four bytes of length, most significant first,
  then the content of the serial number copied out of the image.
\<close>

definition get_serial :: "env \<Rightarrow> cms \<Rightarrow> (KsbaError \<times> byte list option) outcome" where
  "get_serial e c =
     (case ksba_asn_find_node e (signer_info_root c)
             ''SignerInfos..sid.issuerAndSerialNumber.serialNumber'' of
        None \<Rightarrow> Returns (KSBA_No_Value, None)
      | Some (p, n) \<Rightarrow>
          if n_off n = - 1 then Returns (KSBA_General_Error, None)
          else if \<not> xtrymalloc e (n_len n + 4) then Returns (KSBA_Out_Of_Core, None)
          else (case mem_read (signer_info_image c) (n_off n + n_nhdr n) (n_len n) of
                  None \<Rightarrow> Faults Out_Of_Bounds
                | Some bs \<Rightarrow>
                    Returns (KSBA_No_Error,
                             Some ([word_of_int (n_len n div 2 ^ 24), word_of_int (n_len n div 2 ^ 16),
                                    word_of_int (n_len n div 2 ^ 8), word_of_int (n_len n)] @ bs))))"

text \<open>
  \<^verbatim>\<open>ksba_cms_get_issuer_serial (cms, idx, r_issuer, r_serial)\<close>. The two booleans say
  whether the output pointers are given; the result holds what was stored through
  them. The body never reads \<open>idx\<close>.
\<close>

definition ksba_cms_get_issuer_serial ::
  "env \<Rightarrow> cms option \<Rightarrow> int \<Rightarrow> bool \<Rightarrow> bool
     \<Rightarrow> (KsbaError \<times> string option \<times> byte list option) outcome" where
  "ksba_cms_get_issuer_serial e cmsp idx r_issuer r_serial =
     (case cmsp of
        None \<Rightarrow> Returns (KSBA_Invalid_Value, None, None)
      | Some c \<Rightarrow>
          if signer_info_root c = None then Returns (KSBA_No_Data, None, None)
          else (case (if r_issuer then get_issuer e c else (KSBA_No_Error, None)) of
                  (err, issuer) \<Rightarrow>
                    if err \<noteq> KSBA_No_Error then Returns (err, issuer, None)
                    else if r_serial
                    then (case get_serial e c of
                            Faults f \<Rightarrow> Faults f
                          | Returns (err', serial) \<Rightarrow> Returns (err', issuer, serial))
                    else Returns (KSBA_No_Error, issuer, None)))"

text \<open>
  The strings \<^verbatim>\<open>_ksba_oid_node_to_str\<close> allocates live in a heap of their own: an
  address is an index into it, and an allocation takes the next free address.
\<close>

type_synonym str_heap = "string list"

definition str_alloc :: "str_heap \<Rightarrow> string \<Rightarrow> nat \<times> str_heap" where
  "str_alloc h s = (length h, h @ [s])"

text \<open>
  \<^verbatim>\<open>ksba_cms_get_digest_algo\<close>: the pointer returned (\<open>None\<close> for null), the
  container and the heap after the call.
\<close>

definition ksba_cms_get_digest_algo ::
  "env \<Rightarrow> cms option \<Rightarrow> int \<Rightarrow> str_heap \<Rightarrow> nat option \<times> cms option \<times> str_heap" where
  "ksba_cms_get_digest_algo e cmsp idx h =
     (case cmsp of
        None \<Rightarrow> (None, None, h)
      | Some c \<Rightarrow>
          if signer_info_root c = None then (None, Some c, h)
          else if idx \<noteq> 0 then (None, Some c, h)
          else (case signer_info_cache_digest_algo c of
                  Some a \<Rightarrow> (Some a, Some c, h)
                | None \<Rightarrow>
                    (case oid_node_to_str e (signer_info_image c)
                            (map_option snd
                               (ksba_asn_find_node e (signer_info_root c)
                                  ''SignerInfos..digestAlgorithm.algorithm'')) of
                       None \<Rightarrow> (None, Some c, h)
                     | Some s \<Rightarrow>
                         (case str_alloc h s of
                            (a, h') \<Rightarrow>
                              (Some a, Some (c\<lparr>signer_info_cache_digest_algo := Some a\<rparr>), h')))))"

text \<open>
  The shape test of \<^verbatim>\<open>ksba_cms_get_message_digest\<close>:
  \<^verbatim>\<open>n->type == TYPE_SET_OF && n->down && n->down->type == TYPE_OCTET_STRING && !n->down->right\<close>.
\<close>

definition set_of_one_octet_string :: "AsnNode \<Rightarrow> bool" where
  "set_of_one_octet_string n =
     (n_type n = TYPE_SET_OF \<and>
      (case n_down n of
         None \<Rightarrow> False
       | Some d \<Rightarrow> n_type d = TYPE_OCTET_STRING \<and> n_right d = None))"

text \<open>
  \<^verbatim>\<open>ksba_cms_get_message_digest (cms, idx, r_digest, r_digest_len)\<close>. The booleans say
  whether the output pointers are given. The second component of the result is what
  the call stored in \<^verbatim>\<open>*r_digest\<close> and \<^verbatim>\<open>*r_digest_len\<close>, or \<open>None\<close> when it
  returned before storing anything. \<^verbatim>\<open>n->len\<close> is an \<^verbatim>\<open>int\<close>; the length stored, the
  size allocated and the size copied are its conversion to \<^verbatim>\<open>size_t\<close>.
\<close>

definition ksba_cms_get_message_digest ::
  "env \<Rightarrow> cms option \<Rightarrow> int \<Rightarrow> bool \<Rightarrow> bool
     \<Rightarrow> (KsbaError \<times> (byte list option \<times> int) option) outcome" where
  "ksba_cms_get_message_digest e cmsp idx r_digest r_digest_len =
     (case cmsp of
        None \<Rightarrow> Returns (KSBA_Invalid_Value, None)
      | Some c \<Rightarrow>
          if \<not> (r_digest \<and> r_digest_len) then Returns (KSBA_Invalid_Value, None)
          else if signer_info_root c = None then Returns (KSBA_No_Data, None)
          else if idx \<noteq> 0 then Returns (KSBA_Not_Implemented, None)
          else (case ksba_asn_find_node e (signer_info_root c) ''SignerInfos..signedAttrs'' of
                  None \<Rightarrow> Returns (KSBA_No_Error, Some (None, 0))
                | Some (p, nsiginfo) \<Rightarrow>
                    (case asn_find_type_value e (signer_info_image c) (Some nsiginfo) 0
                            oid_messageDigest of
                       None \<Rightarrow> Returns (KSBA_Value_Not_Found, Some (None, 0))
                     | Some n \<Rightarrow>
                         if asn_find_type_value e (signer_info_image c) (Some nsiginfo) 1
                              oid_messageDigest \<noteq> None
                         then Returns (KSBA_Duplicate_Value, Some (None, 0))
                         else if \<not> set_of_one_octet_string n
                         then Returns (KSBA_Invalid_CMS_Object, Some (None, 0))
                         else (case n_down n of
                                 None \<Rightarrow> Returns (KSBA_Invalid_CMS_Object, Some (None, 0))
                               | Some d \<Rightarrow>
                                   if n_off d = - 1 then Returns (KSBA_Bug, Some (None, 0))
                                   else if \<not> xtrymalloc e (to_size_t e (n_len d))
                                   then Returns (KSBA_Out_Of_Core,
                                                 Some (None, to_size_t e (n_len d)))
                                   else (case mem_read (signer_info_image c)
                                                 (n_off d + n_nhdr d) (to_size_t e (n_len d)) of
                                           None \<Rightarrow> Faults Out_Of_Bounds
                                         | Some bs \<Rightarrow>
                                             Returns (KSBA_No_Error,
                                                      Some (Some bs, to_size_t e (n_len d))))))))"

text \<open>
  \<^verbatim>\<open>ksba_cms_hash_signed_attrs\<close>. The second component of the result is the list of
  the buffers handed to \<^verbatim>\<open>cms->hash_fnc\<close>, one per call, in the order of the calls.
\<close>

definition ksba_cms_hash_signed_attrs ::
  "env \<Rightarrow> cms option \<Rightarrow> int \<Rightarrow> (KsbaError \<times> byte list list) outcome" where
  "ksba_cms_hash_signed_attrs e cmsp idx =
     (case cmsp of
        None \<Rightarrow> Returns (KSBA_Invalid_Value, [])
      | Some c \<Rightarrow>
          if hash_fnc c = None then Returns (KSBA_Missing_Action, [])
          else if idx \<noteq> 0 then Returns (KSBA_Other_Error (- 1), [])
          else (case ksba_asn_find_node e (signer_info_root c) ''SignerInfos..signedAttrs'' of
                  None \<Rightarrow> Returns (KSBA_No_Value, [])
                | Some (p, n) \<Rightarrow>
                    if n_off n = - 1 then Returns (KSBA_No_Value, [])
                    else (case mem_read (signer_info_image c) (n_off n + 1)
                                  (n_nhdr n + n_len n - 1) of
                            None \<Rightarrow> Faults Out_Of_Bounds
                          | Some bs \<Rightarrow> Returns (KSBA_No_Error, [[0x31], bs]))))"

subsection \<open>Content handler for parsing signed data\<close>

datatype parse_state = PS_START | PS_GOT_HASH | PS_IN_DATA | PS_ERROR

text \<open>
  \<^verbatim>\<open>ct_parse_signed_data\<close>, in its three parts: the state and error computed from the
  last stop reason (after \<^verbatim>\<open>cms->stop_reason = KSBA_SR_RUNNING\<close>), the action, the
  new stop reason.
\<close>

definition ct_parse_signed_data :: "env \<Rightarrow> cms \<Rightarrow> KsbaError \<times> cms" where
  "ct_parse_signed_data e cms0 =
     (let last_reason = stop_reason cms0;
          cms1 = cms0\<lparr>stop_reason := KSBA_SR_RUNNING\<rparr>;
          (state, err) =
            (if last_reason = KSBA_SR_GOT_CONTENT then (PS_START, KSBA_No_Error)
             else if last_reason = KSBA_SR_NEED_HASH then (PS_GOT_HASH, KSBA_No_Error)
             else if last_reason = KSBA_SR_BEGIN_DATA
             then (if hash_fnc cms1 = None then (PS_ERROR, KSBA_Missing_Action)
                   else (PS_IN_DATA, KSBA_No_Error))
             else if last_reason = KSBA_SR_END_DATA then (PS_GOT_HASH, KSBA_No_Error)
             else if last_reason = KSBA_SR_RUNNING then (PS_ERROR, KSBA_Invalid_State)
             else if last_reason \<noteq> KSBA_SR_NONE then (PS_ERROR, KSBA_Bug)
             else (PS_ERROR, KSBA_No_Error))
      in if err \<noteq> KSBA_No_Error then (err, cms1)
         else
           (case (if state = PS_START then cms_parse_signed_data_part_1 e cms1
                  else if state = PS_GOT_HASH then cms_parse_signed_data_part_2 e cms1
                  else if state = PS_IN_DATA then (KSBA_No_Error, cms1)
                  else (KSBA_Invalid_State, cms1)) of
              (err', cms2) \<Rightarrow>
                if err' \<noteq> KSBA_No_Error then (err', cms2)
                else
                  (KSBA_No_Error,
                   cms2\<lparr>stop_reason :=
                     (if state = PS_START
                      then (if detached_signature cms2 \<and> data_digest cms2 = None
                            then KSBA_SR_NEED_HASH else KSBA_SR_BEGIN_DATA)
                      else if state = PS_IN_DATA then KSBA_SR_END_DATA
                      else if state = PS_GOT_HASH then KSBA_SR_READY
                      else last_reason)\<rparr>)))"

subsection \<open>Building signed data\<close>

text \<open>
  \<^verbatim>\<open>err = step; if (err) return err;\<close> on the writer: the next step runs on the
  writer the last one left, an error ends the chain.
\<close>

definition wr_then ::
  "KsbaError \<times> ksba_writer option \<Rightarrow> (ksba_writer option \<Rightarrow> KsbaError \<times> ksba_writer option)
     \<Rightarrow> KsbaError \<times> ksba_writer option" where
  "wr_then r f = (case r of (err, w) \<Rightarrow> if err \<noteq> KSBA_No_Error then (err, w) else f w)"

text \<open>
  \<^verbatim>\<open>err = ksba_oid_from_str (s, &buf, &len); ... _ksba_ber_write_tl (w, TYPE_OBJECT_ID,
  CLASS_UNIVERSAL, 0, len); if (!err) err = ksba_writer_write (w, buf, len);\<close>
\<close>

definition write_oid :: "env \<Rightarrow> string option \<Rightarrow> ksba_writer option \<Rightarrow> KsbaError \<times> ksba_writer option" where
  "write_oid e s w =
     (case oid_from_str e s of
        (err, buf) \<Rightarrow>
          if err \<noteq> KSBA_No_Error then (err, w)
          else wr_then (ber_write_tl e w TYPE_OBJECT_ID CLASS_UNIVERSAL False (length buf))
                 (\<lambda>w. writer_write e w buf))"

text \<open>
  \<^verbatim>\<open>for (i=0; (s = ksba_cms_get_digest_algo_list (cms, i)); i++)\<close> writing one
  algorithm identifier per round.
\<close>

function write_digest_algos ::
  "env \<Rightarrow> cms \<Rightarrow> int \<Rightarrow> ksba_writer option \<Rightarrow> KsbaError \<times> ksba_writer option" where
  "write_digest_algos e c i w =
     (case ksba_cms_get_digest_algo_list (Some c) i of
        None \<Rightarrow> (KSBA_No_Error, w)
      | Some s \<Rightarrow>
          (case der_write_algorithm_identifier e w s of
             (err, w') \<Rightarrow>
               if err \<noteq> KSBA_No_Error then (err, w') else write_digest_algos e c (i + 1) w'))"
  by pat_completeness auto
termination
proof (relation "measure (\<lambda>(e, c, i, w). length (digest_algos c) - nat i)")
  show "wf (measure (\<lambda>(e, c, i, w). length (digest_algos c) - nat i))" by simp
next
  fix e :: env and c :: cms and i :: int and w :: "ksba_writer option"
    and s :: string and x :: "KsbaError \<times> ksba_writer option" and err w'
  have walk: "list_walk xs j = Some y \<Longrightarrow> 0 \<le> j \<and> nat j < length xs"
    for xs :: "string option list" and j y
  proof (induction xs arbitrary: j)
    case Nil
    then show ?case by simp
  next
    case (Cons z zs)
    show ?case
    proof (cases "j = 0")
      case True
      then show ?thesis by simp
    next
      case False
      with Cons.prems have "list_walk zs (j - 1) = Some y" by simp
      from Cons.IH [OF this] show ?thesis by auto
    qed
  qed
  assume "ksba_cms_get_digest_algo_list (Some c) i = Some s"
  then obtain ol where "list_walk (digest_algos c) i = Some ol"
    by (auto simp: ksba_cms_get_digest_algo_list_def split: option.splits)
  from walk [OF this]
  show "((e, c, i + 1, w'), (e, c, i, w)) \<in> measure (\<lambda>(e, c, i, w). length (digest_algos c) - nat i)"
    by auto
qed

declare write_digest_algos.simps [simp del]

text \<open>\<^verbatim>\<open>build_signed_data_header\<close>: everything up to the encapsulated data.\<close>

definition build_signed_data_header :: "env \<Rightarrow> cms \<Rightarrow> KsbaError \<times> cms" where
  "build_signed_data_header e c =
     (case
        wr_then (ber_write_tl e (writer c) TYPE_SEQUENCE CLASS_UNIVERSAL True 0) (\<lambda>w.
        wr_then (write_oid e (content_oid c) w) (\<lambda>w.
        wr_then (ber_write_tl e w TYPE_NONE CLASS_CONTEXT True 0) (\<lambda>w.
        wr_then (ber_write_tl e w TYPE_SEQUENCE CLASS_UNIVERSAL True 0) (\<lambda>w.
        wr_then (ber_write_tl e w TYPE_INTEGER CLASS_UNIVERSAL False 1) (\<lambda>w.
        wr_then (writer_write e w [0x03]) (\<lambda>w.
        wr_then (ber_write_tl e w TYPE_SET CLASS_UNIVERSAL True 11) (\<lambda>w.
        wr_then (write_digest_algos e c 0 w) (\<lambda>w.
        wr_then (ber_write_tl e w TYPE_SEQUENCE CLASS_UNIVERSAL True 0) (\<lambda>w.
        wr_then (write_oid e (encap_cont_type c) w) (\<lambda>w.
        if \<not> detached_signature c then ber_write_tl e w TYPE_NONE CLASS_CONTEXT True 0
        else (KSBA_No_Error, w)))))))))))
      of (err, w) \<Rightarrow> (err, c\<lparr>writer := w\<rparr>))"

text \<open>
  \<^verbatim>\<open>err = step on a node of the tree; if (err) return err;\<close>: the next step runs on
  the tree the last one left.
\<close>

definition tr_then ::
  "KsbaError \<times> AsnNode \<Rightarrow> (AsnNode \<Rightarrow> KsbaError \<times> AsnNode) \<Rightarrow> KsbaError \<times> AsnNode" where
  "tr_then r f = (case r of (err, t) \<Rightarrow> if err \<noteq> KSBA_No_Error then (err, t) else f t)"

text \<open>
  \<^verbatim>\<open>n = _ksba_asn_find_node (root, name); if (!n) return KSBA_Element_Not_Found;\<close>
  followed by a step on the node found.
\<close>

definition at_node ::
  "env \<Rightarrow> AsnNode \<Rightarrow> string \<Rightarrow> (node_ref \<Rightarrow> AsnNode \<Rightarrow> KsbaError \<times> AsnNode) \<Rightarrow> KsbaError \<times> AsnNode" where
  "at_node e root name f =
     (case ksba_asn_find_node e (Some root) name of
        None \<Rightarrow> (KSBA_Element_Not_Found, root)
      | Some (p, n) \<Rightarrow> f p n)"

text \<open>
  \<^verbatim>\<open>for (n = n->down->down; n && n->type != TYPE_SEQUENCE; n = n->right) ;\<close>
  from the node \<open>n\<close> at \<open>p\<close>: the way to the first sequence in the chain, if any.
\<close>

fun first_sequence :: "AsnNode option \<Rightarrow> node_ref \<Rightarrow> node_ref option" where
  "first_sequence None p = None"
| "first_sequence (Some (AsnNode t off nhdr len d r)) p =
     (if t \<noteq> TYPE_SEQUENCE then first_sequence r (p @ [RIGHT]) else Some p)"

text \<open>
  The steps that lead to the element of \<^verbatim>\<open>signedAttrs\<close> to copy into:
  \<^verbatim>\<open>n = find (root, "SignerInfos..signedAttrs"); if (!n || !n->down) return
  KSBA_Element_Not_Found;\<close>, the loop above, \<^verbatim>\<open>if (!n) return KSBA_Element_Not_Found;\<close>.
\<close>

definition signed_attrs_element :: "env \<Rightarrow> AsnNode option \<Rightarrow> node_ref option" where
  "signed_attrs_element e root =
     (case ksba_asn_find_node e root ''SignerInfos..signedAttrs'' of
        None \<Rightarrow> None
      | Some (p, n) \<Rightarrow>
          (case n_down n of
             None \<Rightarrow> None
           | Some d \<Rightarrow> first_sequence (n_down d) (p @ [DOWN, DOWN])))"

text \<open>\<^verbatim>\<open>set_issuer_serial (signer_info, cert)\<close>, \<open>signer_info\<close> a node of \<open>root\<close>.\<close>

definition set_issuer_serial ::
  "env \<Rightarrow> AsnNode \<Rightarrow> node_ref option \<Rightarrow> ksba_cert option \<Rightarrow> KsbaError \<times> AsnNode" where
  "set_issuer_serial e root signer_info crt =
     (case signer_info of
        None \<Rightarrow> (KSBA_Invalid_Value, root)
      | Some p \<Rightarrow>
          (case crt of
             None \<Rightarrow> (KSBA_Invalid_Value, root)
           | Some k \<Rightarrow>
               tr_then
                 (der_copy_tree e root
                    (map_option (\<lambda>(q, n). p @ q)
                       (ksba_asn_find_node e (node_at root p)
                          ''sid.issuerAndSerialNumber.serialNumber''))
                    (map_option snd
                       (ksba_asn_find_node e (cert_root k)
                          ''Certificate.tbsCertificate.serialNumber''))
                    (cert_image k))
                 (\<lambda>root.
                    der_copy_tree e root
                      (map_option (\<lambda>(q, n). p @ q)
                         (ksba_asn_find_node e (node_at root p)
                            ''sid.issuerAndSerialNumber.issuer''))
                      (map_option snd
                         (ksba_asn_find_node e (cert_root k)
                            ''Certificate.tbsCertificate.issuer''))
                      (cert_image k))))"

text \<open>
  One round of the loop of \<^verbatim>\<open>build_signed_data_attributes\<close>, for the signer record
  \<open>cl\<close> and the digest algorithm \<open>d\<close> next to it. The result holds the record and
  the pair \<^verbatim>\<open>cms->signer_info.root\<close>, \<^verbatim>\<open>cms->signer_info.image\<close> as the round
  leaves them. \<^verbatim>\<open>assert (certlist && certlist->msg_digest_len)\<close> stops the program
  unless the file is compiled with \<^verbatim>\<open>NDEBUG\<close>; with it the round goes on and stores
  a digest of \<^verbatim>\<open>msg_digest_len\<close> bytes, none when the length is 0. The trees kept in
  \<^verbatim>\<open>certlist->attr.root\<close> and \<^verbatim>\<open>cms->signer_info.root\<close> are the ones the encoder has
  been through.
\<close>

definition attributes_signer ::
  "env \<Rightarrow> ksba_asn_tree \<Rightarrow> certlist_s \<Rightarrow> string option
     \<Rightarrow> AsnNode option \<times> byte list option
     \<Rightarrow> (KsbaError \<times> certlist_s \<times> AsnNode option \<times> byte list option) outcome" where
  "attributes_signer e cms_tree cl d si =
     (if cert cl = None \<or> d = None then Returns (KSBA_Bug, cl, si)
      else
        (case asn_expand_tree e (parse_tree cms_tree) ''CryptographicMessageSyntax.Attribute'' of
           None \<Rightarrow> Returns (KSBA_Element_Not_Found, cl, si)
         | Some attr \<Rightarrow>
             (case at_node e attr ''Attribute.attrType''
                     (\<lambda>p n. der_store_oid e attr p oidstr_messageDigest) of
                (err, attr) \<Rightarrow>
                  if err \<noteq> KSBA_No_Error then Returns (err, cl, si)
                  else
                    (case ksba_asn_find_node e (Some attr) ''Attribute.attrValues'' of
                       None \<Rightarrow> Returns (KSBA_Element_Not_Found, cl, si)
                     | Some (p, n) \<Rightarrow>
                         if n_down n = None then Returns (KSBA_Element_Not_Found, cl, si)
                         else if \<not> ndebug e \<and> msg_digest_len cl = 0
                         then Faults Assertion_Failed
                         else
                           (case der_store_octet_string e attr (p @ [DOWN])
                                   (take (msg_digest_len cl) (msg_digest cl)) of
                              (err, attr) \<Rightarrow>
                                if err \<noteq> KSBA_No_Error then Returns (err, cl, si)
                                else
                                  (case der_encode_tree e attr of
                                     (err, attr, img) \<Rightarrow>
                                       if err \<noteq> KSBA_No_Error then Returns (err, cl, si)
                                       else
                                         (let cl = cl\<lparr>attr_root := Some attr, attr_image := Some img\<rparr>;
                                              root = asn_expand_tree e (parse_tree cms_tree)
                                                       ''CryptographicMessageSyntax.SignerInfos''
                                          in case root of
                                               None \<Rightarrow> Returns (KSBA_Element_Not_Found, cl, si)
                                             | Some rt \<Rightarrow>
                                                 (case signed_attrs_element e root of
                                                    None \<Rightarrow> Returns (KSBA_Element_Not_Found, cl, si)
                                                  | Some q \<Rightarrow>
                                                      (case der_copy_tree e rt (Some q) (Some attr) (Some img) of
                                                         (err, rt) \<Rightarrow>
                                                           if err \<noteq> KSBA_No_Error then Returns (err, cl, si)
                                                           else
                                                             (case der_encode_tree e rt of
                                                                (err, rt, img2) \<Rightarrow>
                                                                  if err \<noteq> KSBA_No_Error
                                                                  then Returns (err, cl, si)
                                                                  else Returns (KSBA_No_Error, cl,
                                                                                Some rt, Some img2)))))))))))"

text \<open>
  The loop \<^verbatim>\<open>for (signer=0; certlist; signer++, certlist = certlist->next, digestlist =
  digestlist->next)\<close> with its first test \<^verbatim>\<open>if (!digestlist) return KSBA_Missing_Value;\<close>.
\<close>

fun attributes_loop ::
  "env \<Rightarrow> ksba_asn_tree \<Rightarrow> certlist_s list \<Rightarrow> string option list
     \<Rightarrow> AsnNode option \<times> byte list option
     \<Rightarrow> (KsbaError \<times> certlist_s list \<times> AsnNode option \<times> byte list option) outcome" where
  "attributes_loop e cms_tree [] ds si = Returns (KSBA_No_Error, [], si)"
| "attributes_loop e cms_tree (cl # cls) [] si = Returns (KSBA_Missing_Value, cl # cls, si)"
| "attributes_loop e cms_tree (cl # cls) (d # ds) si =
     (case attributes_signer e cms_tree cl d si of
        Faults f \<Rightarrow> Faults f
      | Returns (err, cl', si') \<Rightarrow>
          if err \<noteq> KSBA_No_Error then Returns (err, cl' # cls, si')
          else
            (case attributes_loop e cms_tree cls ds si' of
               Faults f \<Rightarrow> Faults f
             | Returns (err', cls', si'') \<Rightarrow> Returns (err', cl' # cls', si'')))"

text \<open>
  \<^verbatim>\<open>build_signed_data_attributes\<close>: the end tag, then the signed attributes of every
  signer.
\<close>

definition build_signed_data_attributes :: "env \<Rightarrow> cms \<Rightarrow> (KsbaError \<times> cms) outcome" where
  "build_signed_data_attributes e c =
     (case ber_write_tl e (writer c) TYPE_NONE CLASS_UNIVERSAL False 0 of
        (err, w) \<Rightarrow>
          if err \<noteq> KSBA_No_Error then Returns (err, c\<lparr>writer := w\<rparr>)
          else
            (case asn_create_tree e ''cms'' of
               (err, cms_tree) \<Rightarrow>
                 if err \<noteq> KSBA_No_Error then Returns (err, c\<lparr>writer := w\<rparr>)
                 else if cert_list c = [] then Returns (KSBA_Missing_Value, c\<lparr>writer := w\<rparr>)
                 else if digest_algos c = [] then Returns (KSBA_Missing_Value, c\<lparr>writer := w\<rparr>)
                 else
                   (case attributes_loop e cms_tree (cert_list c) (digest_algos c)
                           (signer_info_root c, signer_info_image c) of
                      Faults f \<Rightarrow> Faults f
                    | Returns (err, cls, rt, img) \<Rightarrow>
                        Returns (err, c\<lparr>writer := w, cert_list := cls,
                                        signer_info_root := rt, signer_info_image := img\<rparr>))))"

text \<open>
  One round of the loop of \<^verbatim>\<open>build_signed_data_rest\<close>, in three parts: the fields
  stored before the signed attributes, the fields stored after them, and the round
  itself. \<open>signer\<close> is the loop counter.
\<close>

definition rest_signer_head ::
  "env \<Rightarrow> AsnNode \<Rightarrow> certlist_s \<Rightarrow> string \<Rightarrow> KsbaError \<times> AsnNode" where
  "rest_signer_head e root cl doid =
     tr_then (at_node e root ''SignerInfos..version''
                (\<lambda>p n. der_store_integer e root p [0x00, 0x00, 0x00, 0x01, 0x01])) (\<lambda>root.
     tr_then (at_node e root ''SignerInfos..sid''
                (\<lambda>p n. set_issuer_serial e root (Some p) (cert cl))) (\<lambda>root.
     tr_then (at_node e root ''SignerInfos..digestAlgorithm.algorithm''
                (\<lambda>p n. der_store_oid e root p doid)) (\<lambda>root.
     at_node e root ''SignerInfos..digestAlgorithm.parameters''
                (\<lambda>p n. der_store_null e root p))))"

definition rest_signer_tail ::
  "env \<Rightarrow> AsnNode \<Rightarrow> string \<Rightarrow> KsbaError \<times> AsnNode" where
  "rest_signer_tail e root doid =
     tr_then (at_node e root ''SignerInfos..signatureAlgorithm.algorithm''
                (\<lambda>p n. der_store_oid e root p doid)) (\<lambda>root.
     tr_then (at_node e root ''SignerInfos..signatureAlgorithm.parameters''
                (\<lambda>p n. der_store_null e root p)) (\<lambda>root.
     at_node e root ''SignerInfos..signature''
                (\<lambda>p n. der_store_octet_string e root p (map (of_nat \<circ> of_char) ''xxxxx''))))"

definition rest_signer ::
  "env \<Rightarrow> ksba_asn_tree \<Rightarrow> int \<Rightarrow> certlist_s \<Rightarrow> string option \<Rightarrow> ksba_writer option
     \<Rightarrow> (KsbaError \<times> ksba_writer option) outcome" where
  "rest_signer e cms_tree signer cl d w =
     (case d of
        None \<Rightarrow> Returns (KSBA_Bug, w)
      | Some doid \<Rightarrow>
          if cert cl = None then Returns (KSBA_Bug, w)
          else
            (case asn_expand_tree e (parse_tree cms_tree)
                    ''CryptographicMessageSyntax.SignerInfos'' of
               None \<Rightarrow> Returns (KSBA_Element_Not_Found, w)
             | Some root \<Rightarrow>
                 (case rest_signer_head e root cl doid of
                    (err, root) \<Rightarrow>
                      if err \<noteq> KSBA_No_Error then Returns (err, w)
                      else
                        (case signed_attrs_element e (Some root) of
                           None \<Rightarrow> Returns (KSBA_Element_Not_Found, w)
                         | Some q \<Rightarrow>
                             if \<not> ndebug e \<and> attr_root cl = None then Faults Assertion_Failed
                             else if \<not> ndebug e \<and> attr_image cl = None
                             then Faults Assertion_Failed
                             else
                               (case tr_then
                                       (der_copy_tree e root (Some q) (attr_root cl) (attr_image cl))
                                       (\<lambda>root. rest_signer_tail e root doid) of
                                  (err, root) \<Rightarrow>
                                    if err \<noteq> KSBA_No_Error then Returns (err, w)
                                    else
                                      (case der_encode_tree e root of
                                         (err, root, img) \<Rightarrow>
                                           if err \<noteq> KSBA_No_Error then Returns (err, w)
                                           else
                                             Returns
                                               (writer_write e w
                                                  (if signer = 0 \<and> img \<noteq> []
                                                   then img[0 := 0xa0] else img))))))))"

fun rest_loop ::
  "env \<Rightarrow> ksba_asn_tree \<Rightarrow> int \<Rightarrow> certlist_s list \<Rightarrow> string option list \<Rightarrow> ksba_writer option
     \<Rightarrow> (KsbaError \<times> ksba_writer option) outcome" where
  "rest_loop e cms_tree signer [] ds w = Returns (KSBA_No_Error, w)"
| "rest_loop e cms_tree signer (cl # cls) [] w = Returns (KSBA_Missing_Value, w)"
| "rest_loop e cms_tree signer (cl # cls) (d # ds) w =
     (case rest_signer e cms_tree signer cl d w of
        Faults f \<Rightarrow> Faults f
      | Returns (err, w') \<Rightarrow>
          if err \<noteq> KSBA_No_Error then Returns (err, w')
          else rest_loop e cms_tree (signer + 1) cls ds w')"

text \<open>
  \<^verbatim>\<open>build_signed_data_rest\<close>: the signer infos, then the two end tags. The call
  changes nothing of the container but what the writer holds.
\<close>

definition build_signed_data_rest :: "env \<Rightarrow> cms \<Rightarrow> (KsbaError \<times> cms) outcome" where
  "build_signed_data_rest e c =
     (case asn_create_tree e ''cms'' of
        (err, cms_tree) \<Rightarrow>
          if err \<noteq> KSBA_No_Error then Returns (err, c)
          else if cert_list c = [] then Returns (KSBA_Missing_Value, c)
          else if digest_algos c = [] then Returns (KSBA_Missing_Value, c)
          else
            (case rest_loop e cms_tree 0 (cert_list c) (digest_algos c) (writer c) of
               Faults f \<Rightarrow> Faults f
             | Returns (err, w) \<Rightarrow>
                 if err \<noteq> KSBA_No_Error then Returns (err, c\<lparr>writer := w\<rparr>)
                 else
                   (case wr_then (ber_write_tl e w TYPE_NONE CLASS_UNIVERSAL False 0)
                           (\<lambda>w. ber_write_tl e w TYPE_NONE CLASS_UNIVERSAL False 0) of
                      (err, w) \<Rightarrow> Returns (err, c\<lparr>writer := w\<rparr>))))"

datatype build_state = BS_START | BS_DATAREADY | BS_GOTSIG | BS_ERROR

text \<open>\<^verbatim>\<open>ct_build_signed_data\<close>, in the same three parts as the parser.\<close>

definition ct_build_signed_data :: "env \<Rightarrow> cms \<Rightarrow> (KsbaError \<times> cms) outcome" where
  "ct_build_signed_data e cms0 =
     (let last_reason = stop_reason cms0;
          cms1 = cms0\<lparr>stop_reason := KSBA_SR_RUNNING\<rparr>;
          (state, err) =
            (if last_reason = KSBA_SR_GOT_CONTENT then (BS_START, KSBA_No_Error)
             else if last_reason = KSBA_SR_BEGIN_DATA then (BS_DATAREADY, KSBA_No_Error)
             else if last_reason = KSBA_SR_END_DATA then (BS_DATAREADY, KSBA_No_Error)
             else if last_reason = KSBA_SR_NEED_SIG then (BS_GOTSIG, KSBA_No_Error)
             else if last_reason = KSBA_SR_RUNNING then (BS_ERROR, KSBA_Invalid_State)
             else if last_reason \<noteq> KSBA_SR_NONE then (BS_ERROR, KSBA_Bug)
             else (BS_ERROR, KSBA_No_Error))
      in if err \<noteq> KSBA_No_Error then Returns (err, cms1)
         else
           (case (if state = BS_START
                  then Returns
                         (build_signed_data_header e
                            (cms1\<lparr>detached_signature :=
                               (case cert_list cms1 of
                                  [] \<Rightarrow> False
                                | cl # cls \<Rightarrow> msg_digest_len cl \<noteq> 0)\<rparr>))
                  else if state = BS_DATAREADY then build_signed_data_attributes e cms1
                  else if state = BS_GOTSIG then build_signed_data_rest e cms1
                  else Returns (KSBA_Invalid_State, cms1)) of
              Faults f \<Rightarrow> Faults f
            | Returns (err', cms2) \<Rightarrow>
                if err' \<noteq> KSBA_No_Error then Returns (err', cms2)
                else
                  Returns
                    (KSBA_No_Error,
                     cms2\<lparr>stop_reason :=
                       (if state = BS_START
                        then (if detached_signature cms2 then KSBA_SR_END_DATA
                              else KSBA_SR_BEGIN_DATA)
                        else if state = BS_DATAREADY then KSBA_SR_NEED_SIG
                        else if state = BS_GOTSIG then KSBA_SR_READY
                        else last_reason)\<rparr>)))"

subsection \<open>The two entry points\<close>

text \<open>\<^verbatim>\<open>cms->content.handler (cms)\<close>: the call through the function pointer.\<close>

fun call_handler :: "env \<Rightarrow> handler \<Rightarrow> cms \<Rightarrow> (KsbaError \<times> cms) outcome" where
  "call_handler e H_ct_parse_data c = Returns (KSBA_Not_Implemented, c)"
| "call_handler e H_ct_parse_signed_data c = Returns (ct_parse_signed_data e c)"
| "call_handler e H_ct_parse_enveloped_data c = Returns (KSBA_Not_Implemented, c)"
| "call_handler e H_ct_parse_digested_data c = Returns (KSBA_Not_Implemented, c)"
| "call_handler e H_ct_parse_encrypted_data c = Returns (KSBA_Not_Implemented, c)"
| "call_handler e H_ct_build_data c = Returns (KSBA_Not_Implemented, c)"
| "call_handler e H_ct_build_signed_data c = ct_build_signed_data e c"
| "call_handler e H_ct_build_enveloped_data c = Returns (KSBA_Not_Implemented, c)"
| "call_handler e H_ct_build_digested_data c = Returns (KSBA_Not_Implemented, c)"
| "call_handler e H_ct_build_encrypted_data c = Returns (KSBA_Not_Implemented, c)"

text \<open>
  The branch both entry points share once the stop reason is no longer the initial
  one. The third component is what the call leaves in \<^verbatim>\<open>*r_stopreason\<close>.
\<close>

definition run_handler ::
  "env \<Rightarrow> cms \<Rightarrow> (KsbaError \<times> cms option \<times> KsbaStopReason option) outcome" where
  "run_handler e c =
     (case content_handler c of
        None \<Rightarrow> Returns (KSBA_Unsupported_CMS_Object, Some c, Some KSBA_SR_RUNNING)
      | Some h \<Rightarrow>
          (case call_handler e h c of
             Faults f \<Rightarrow> Faults f
           | Returns (err, c') \<Rightarrow>
               if err \<noteq> KSBA_No_Error then Returns (err, Some c', Some KSBA_SR_RUNNING)
               else Returns (KSBA_No_Error, Some c', Some (stop_reason c'))))"

text \<open>
  \<^verbatim>\<open>ksba_cms_parse (cms, r_stopreason)\<close>; the boolean says whether \<open>r_stopreason\<close> is
  given.
\<close>

definition ksba_cms_parse ::
  "env \<Rightarrow> cms option \<Rightarrow> bool \<Rightarrow> (KsbaError \<times> cms option \<times> KsbaStopReason option) outcome" where
  "ksba_cms_parse e cmsp r_stopreason =
     (case cmsp of
        None \<Rightarrow> Returns (KSBA_Invalid_Value, None, None)
      | Some c \<Rightarrow>
          if \<not> r_stopreason then Returns (KSBA_Invalid_Value, Some c, None)
          else if stop_reason c = KSBA_SR_NONE
          then
            (case cms_parse_content_info e c of
               (err, c1) \<Rightarrow>
                 if err \<noteq> KSBA_No_Error then Returns (err, Some c1, Some KSBA_SR_RUNNING)
                 else
                   (case content_oid c1 of
                      None \<Rightarrow> Faults Null_Dereference
                    | Some s \<Rightarrow>
                        (case find_content_handler content_handlers s of
                           None \<Rightarrow>
                             Returns (KSBA_Unknown_CMS_Object, Some c1, Some KSBA_SR_RUNNING)
                         | Some row \<Rightarrow>
                             (case parse_handler row of
                                None \<Rightarrow>
                                  Returns (KSBA_Unsupported_CMS_Object, Some c1,
                                           Some KSBA_SR_RUNNING)
                              | Some h \<Rightarrow>
                                  Returns (KSBA_No_Error,
                                           Some (c1\<lparr>content_ct := ct row,
                                                    content_handler := Some h,
                                                    stop_reason := KSBA_SR_GOT_CONTENT\<rparr>),
                                           Some KSBA_SR_GOT_CONTENT)))))
          else run_handler e c)"

definition ksba_cms_build ::
  "env \<Rightarrow> cms option \<Rightarrow> bool \<Rightarrow> (KsbaError \<times> cms option \<times> KsbaStopReason option) outcome" where
  "ksba_cms_build e cmsp r_stopreason =
     (case cmsp of
        None \<Rightarrow> Returns (KSBA_Invalid_Value, None, None)
      | Some c \<Rightarrow>
          if \<not> r_stopreason then Returns (KSBA_Invalid_Value, Some c, None)
          else if stop_reason c = KSBA_SR_NONE
          then
            (if writer c = None then Returns (KSBA_Missing_Action, Some c, Some KSBA_SR_RUNNING)
             else if content_handler c = None
             then Returns (KSBA_Missing_Action, Some c, Some KSBA_SR_RUNNING)
             else if encap_cont_type c = None
             then Returns (KSBA_Missing_Action, Some c, Some KSBA_SR_RUNNING)
             else Returns (KSBA_No_Error, Some (c\<lparr>stop_reason := KSBA_SR_GOT_CONTENT\<rparr>),
                           Some KSBA_SR_GOT_CONTENT))
          else run_handler e c)"

section \<open>A concrete environment and sample containers\<close>

text \<open>
  The theorems below hold for every environment. To run the functions on concrete
  inputs, \<open>sample_env\<close> gives each collaborator a simple stand-in: the writer
  appends, the allocators succeed, the stores and copies leave the tree as it is,
  assertions are compiled in, \<^verbatim>\<open>size_t\<close> has 64 bits,
  names are looked up in a fixed table of ways, and the search for an attribute
  compares the OID bytes in the image.
\<close>

definition tag_octet :: "node_type \<Rightarrow> tag_class \<Rightarrow> bool \<Rightarrow> byte" where
  "tag_octet t cl constructed =
     (case cl of CLASS_UNIVERSAL \<Rightarrow> 0x00 | CLASS_APPLICATION \<Rightarrow> 0x40
               | CLASS_CONTEXT \<Rightarrow> 0x80 | CLASS_PRIVATE \<Rightarrow> 0xC0)
     + (if constructed then 0x20 else 0x00)
     + (case t of TYPE_NONE \<Rightarrow> 0 | TYPE_INTEGER \<Rightarrow> 2 | TYPE_OCTET_STRING \<Rightarrow> 4
                | TYPE_NULL \<Rightarrow> 5 | TYPE_OBJECT_ID \<Rightarrow> 6 | TYPE_SEQUENCE \<Rightarrow> 16
                | TYPE_SET \<Rightarrow> 17 | TYPE_SET_OF \<Rightarrow> 17 | TYPE_OTHER k \<Rightarrow> of_nat k)"

definition sample_write :: "ksba_writer option \<Rightarrow> byte list \<Rightarrow> KsbaError \<times> ksba_writer option" where
  "sample_write w bs =
     (case w of
        None \<Rightarrow> (KSBA_Invalid_Value, None)
      | Some wr \<Rightarrow> (KSBA_No_Error, Some (wr\<lparr>w_output := w_output wr @ bs\<rparr>)))"

definition sample_ways :: "(string \<times> node_ref) list" where
  "sample_ways =
     [ (''SignerInfos..version'', [DOWN, DOWN]),
       (''SignerInfos..sid'', [DOWN, DOWN, RIGHT]),
       (''SignerInfos..sid.issuerAndSerialNumber.issuer'', [DOWN, DOWN, RIGHT, DOWN, DOWN]),
       (''SignerInfos..sid.issuerAndSerialNumber.serialNumber'',
          [DOWN, DOWN, RIGHT, DOWN, DOWN, RIGHT]),
       (''sid.issuerAndSerialNumber.issuer'', [DOWN, DOWN]),
       (''sid.issuerAndSerialNumber.serialNumber'', [DOWN, DOWN, RIGHT]),
       (''SignerInfos..digestAlgorithm.algorithm'', [DOWN, DOWN, RIGHT, RIGHT, DOWN]),
       (''SignerInfos..digestAlgorithm.parameters'', [DOWN, DOWN, RIGHT, RIGHT, DOWN, RIGHT]),
       (''SignerInfos..signedAttrs'', [DOWN, DOWN, RIGHT, RIGHT, RIGHT]),
       (''SignerInfos..signatureAlgorithm'', [DOWN, DOWN, RIGHT, RIGHT, RIGHT, RIGHT]),
       (''SignerInfos..signatureAlgorithm.algorithm'',
          [DOWN, DOWN, RIGHT, RIGHT, RIGHT, RIGHT, DOWN]),
       (''SignerInfos..signatureAlgorithm.parameters'',
          [DOWN, DOWN, RIGHT, RIGHT, RIGHT, RIGHT, DOWN, RIGHT]),
       (''SignerInfos..signature'', [DOWN, DOWN, RIGHT, RIGHT, RIGHT, RIGHT, RIGHT]),
       (''Attribute.attrType'', [DOWN]),
       (''Attribute.attrValues'', [DOWN, RIGHT]),
       (''Certificate.tbsCertificate.serialNumber'', [DOWN, DOWN]),
       (''Certificate.tbsCertificate.issuer'', [DOWN, DOWN, RIGHT]) ]"

text \<open>
  The stand-in for \<^verbatim>\<open>_ksba_asn_find_type_value\<close>: among the children of the root,
  the sequences that start with the OID; the value node of match number \<open>idx\<close>.
\<close>

fun sample_find_in_chain :: "byte list option \<Rightarrow> AsnNode option \<Rightarrow> int \<Rightarrow> byte list \<Rightarrow> AsnNode option" where
  "sample_find_in_chain img None idx v = None"
| "sample_find_in_chain img (Some (AsnNode t off nhdr len d r)) idx v =
     (case (if t = TYPE_SEQUENCE
            then (case d of
                    None \<Rightarrow> None
                  | Some k \<Rightarrow>
                      if n_type k = TYPE_OBJECT_ID
                         \<and> mem_read img (n_off k + n_nhdr k) (n_len k) = Some v
                      then n_right k else None)
            else None) of
        None \<Rightarrow> sample_find_in_chain img r idx v
      | Some val \<Rightarrow> if idx = 0 then Some val else sample_find_in_chain img r (idx - 1) v)"

text \<open>The templates that the stand-in for \<^verbatim>\<open>_ksba_asn_expand_tree\<close> hands out.\<close>

definition template_leaf :: "node_type \<Rightarrow> AsnNode option \<Rightarrow> AsnNode" where
  "template_leaf t r = AsnNode t (- 1) 0 0 None r"

definition template_Attribute :: AsnNode where
  "template_Attribute =
     AsnNode TYPE_SEQUENCE (- 1) 0 0
       (Some (template_leaf TYPE_OBJECT_ID
          (Some (AsnNode TYPE_SET_OF (- 1) 0 0
             (Some (template_leaf TYPE_OCTET_STRING None)) None))))
       None"

definition template_AlgorithmIdentifier :: "AsnNode option \<Rightarrow> AsnNode" where
  "template_AlgorithmIdentifier r =
     AsnNode TYPE_SEQUENCE (- 1) 0 0
       (Some (template_leaf TYPE_OBJECT_ID (Some (template_leaf TYPE_NULL None)))) r"

definition template_signedAttrs :: "AsnNode option \<Rightarrow> AsnNode" where
  "template_signedAttrs r =
     AsnNode TYPE_SET_OF (- 1) 0 0
       (Some (AsnNode (TYPE_OTHER 0) (- 1) 0 0 (Some (template_leaf TYPE_SEQUENCE None)) None)) r"

definition template_sid :: "AsnNode option \<Rightarrow> AsnNode" where
  "template_sid r =
     AsnNode (TYPE_OTHER 0) (- 1) 0 0
       (Some (AsnNode TYPE_SEQUENCE (- 1) 0 0
          (Some (AsnNode (TYPE_OTHER 0) (- 1) 0 0
             (Some (template_leaf TYPE_SEQUENCE None))
             (Some (template_leaf TYPE_INTEGER None))))
          None))
       r"

definition template_SignerInfos :: AsnNode where
  "template_SignerInfos =
     AsnNode TYPE_SET_OF (- 1) 0 0
       (Some (AsnNode TYPE_SEQUENCE (- 1) 0 0
          (Some (template_leaf TYPE_INTEGER
             (Some (template_sid
                (Some (template_AlgorithmIdentifier
                   (Some (template_signedAttrs
                      (Some (template_AlgorithmIdentifier
                         (Some (template_leaf TYPE_OCTET_STRING None))))))))))))
          None))
       None"

text \<open>
  The stand-in for \<^verbatim>\<open>_ksba_der_encode_tree\<close>: the image is an empty sequence, and the
  root gets its place in it, offset 0, two bytes of header and no content.
\<close>

definition sample_encode :: "AsnNode \<Rightarrow> KsbaError \<times> AsnNode \<times> byte list" where
  "sample_encode root =
     (KSBA_No_Error, AsnNode (n_type root) 0 2 0 (n_down root) (n_right root), [0x30, 0x00])"

definition sample_env :: env where
  "sample_env =
     \<lparr> cms_parse_content_info =
         (\<lambda>c. (KSBA_No_Error, c\<lparr>content_oid := Some ''1.2.840.113549.1.7.2''\<rparr>)),
       cms_parse_signed_data_part_1 = (\<lambda>c. (KSBA_No_Error, c)),
       cms_parse_signed_data_part_2 = (\<lambda>c. (KSBA_No_Error, c)),
       asn_find_node = (\<lambda>root name. map_of sample_ways name),
       asn_find_type_value =
         (\<lambda>img root idx v.
            case root of None \<Rightarrow> None | Some n \<Rightarrow> sample_find_in_chain img (n_down n) idx v),
       dn_to_str = (\<lambda>img n. (KSBA_No_Error, Some ''CN=signer'')),
       oid_node_to_str =
         (\<lambda>img n. case n of None \<Rightarrow> None | Some m \<Rightarrow>
                     if n_off m = - 1 then None else Some ''1.3.14.3.2.26''),
       xtrymalloc = (\<lambda>n. 0 \<le> n),
       xtry_struct = (\<lambda>name. True),
       xtrystrdup = (\<lambda>str. True),
       ber_write_tl =
         (\<lambda>w t cl constructed len.
            sample_write w [tag_octet t cl constructed,
                            if constructed \<and> len = 0 then 0x80 else of_nat len]),
       writer_write = sample_write,
       oid_from_str =
         (\<lambda>str. case str of None \<Rightarrow> (KSBA_Invalid_Value, [])
                          | Some cs \<Rightarrow> (KSBA_No_Error, map (of_nat \<circ> of_char) cs)),
       der_write_algorithm_identifier =
         (\<lambda>w str. sample_write w ([0x30, of_nat (length str + 4), 0x06, of_nat (length str)]
                                  @ map (of_nat \<circ> of_char) str @ [0x05, 0x00])),
       asn_create_tree = (\<lambda>name. (KSBA_No_Error, \<lparr> parse_tree = None \<rparr>)),
       asn_expand_tree =
         (\<lambda>tree name.
            if name = ''CryptographicMessageSyntax.Attribute'' then Some template_Attribute
            else if name = ''CryptographicMessageSyntax.SignerInfos'' then Some template_SignerInfos
            else None),
       der_store_oid = (\<lambda>root p str. (KSBA_No_Error, root)),
       der_store_integer = (\<lambda>root p bs. (KSBA_No_Error, root)),
       der_store_null = (\<lambda>root p. (KSBA_No_Error, root)),
       der_store_octet_string = (\<lambda>root p bs. (KSBA_No_Error, root)),
       der_encode_tree = sample_encode,
       der_copy_tree = (\<lambda>root dst src img. (KSBA_No_Error, root)),
       msg_digest_dim = 24,
       ndebug = False,
       size_t_bits = 64 \<rparr>"

text \<open>
  A parsed \<^verbatim>\<open>SignerInfos\<close> of one signer and its image: version 1, an empty
  issuer with serial number 42, SHA-1, the signed attributes if any (from offset 25
  on, \<open>n\<close> bytes of attributes after the two bytes of header), a signature algorithm
  and a two byte signature. \<open>sample_Attribute\<close> is a \<^verbatim>\<open>messageDigest\<close> attribute
  with one value, \<open>sample_Attribute_two_values\<close> one with two. The tree of a
  container without signed attributes ends at the digest algorithm.
\<close>

definition sample_Attribute :: "int \<Rightarrow> node_type \<Rightarrow> AsnNode option \<Rightarrow> AsnNode" where
  "sample_Attribute off vt r =
     AsnNode TYPE_SEQUENCE off 2 19
       (Some (AsnNode TYPE_OBJECT_ID (off + 2) 2 9 None
          (Some (AsnNode vt (off + 13) 2 6
             (Some (AsnNode TYPE_OCTET_STRING (off + 15) 2 4 None None)) None))))
       r"

definition sample_Attribute_bytes :: "byte list" where
  "sample_Attribute_bytes =
     [0x30, 0x13, 0x06, 0x09, 0x2A, 0x86, 0x48, 0x86, 0xF7, 0x0D, 0x01, 0x09, 0x04,
      0x31, 0x06, 0x04, 0x04, 0xDE, 0xAD, 0xBE, 0xEF]"

definition sample_Attribute_two_values :: "int \<Rightarrow> AsnNode option \<Rightarrow> AsnNode" where
  "sample_Attribute_two_values off r =
     AsnNode TYPE_SEQUENCE off 2 25
       (Some (AsnNode TYPE_OBJECT_ID (off + 2) 2 9 None
          (Some (AsnNode TYPE_SET_OF (off + 13) 2 12
             (Some (AsnNode TYPE_OCTET_STRING (off + 15) 2 4 None
                (Some (AsnNode TYPE_OCTET_STRING (off + 21) 2 4 None None))))
             None))))
       r"

definition sample_Attribute_two_values_bytes :: "byte list" where
  "sample_Attribute_two_values_bytes =
     [0x30, 0x19, 0x06, 0x09, 0x2A, 0x86, 0x48, 0x86, 0xF7, 0x0D, 0x01, 0x09, 0x04,
      0x31, 0x0C, 0x04, 0x04, 0xDE, 0xAD, 0xBE, 0xEF, 0x04, 0x04, 0xCA, 0xFE, 0xBA, 0xBE]"

definition sample_signatureAlgorithm :: "int \<Rightarrow> AsnNode" where
  "sample_signatureAlgorithm off =
     AsnNode TYPE_SEQUENCE off 2 13
       (Some (AsnNode TYPE_OBJECT_ID (off + 2) 2 9 None
          (Some (AsnNode TYPE_NULL (off + 13) 2 0 None None))))
       (Some (AsnNode TYPE_OCTET_STRING (off + 15) 2 2 None None))"

definition sample_signedAttrs :: "int \<Rightarrow> AsnNode \<Rightarrow> AsnNode" where
  "sample_signedAttrs n a =
     AsnNode TYPE_SET_OF 25 2 n (Some a) (Some (sample_signatureAlgorithm (27 + n)))"

definition sample_digestAlgorithm :: "(int \<times> AsnNode) option \<Rightarrow> AsnNode" where
  "sample_digestAlgorithm attrs =
     AsnNode TYPE_SEQUENCE 14 2 9
       (Some (AsnNode TYPE_OBJECT_ID 16 2 5 None (Some (AsnNode TYPE_NULL 23 2 0 None None))))
       (case attrs of None \<Rightarrow> None | Some (n, a) \<Rightarrow> Some (sample_signedAttrs n a))"

definition sample_sid :: "(int \<times> AsnNode) option \<Rightarrow> AsnNode" where
  "sample_sid attrs =
     AsnNode (TYPE_OTHER 0) 7 0 7
       (Some (AsnNode TYPE_SEQUENCE 7 2 5
          (Some (AsnNode (TYPE_OTHER 0) 9 0 2
             (Some (AsnNode TYPE_SEQUENCE 9 2 0 None None))
             (Some (AsnNode TYPE_INTEGER 11 2 1 None None))))
          None))
       (Some (sample_digestAlgorithm attrs))"

definition sample_SignerInfos :: "(int \<times> AsnNode) option \<Rightarrow> AsnNode" where
  "sample_SignerInfos attrs =
     AsnNode TYPE_SET_OF 0 2 (42 + (case attrs of None \<Rightarrow> 0 | Some (n, a) \<Rightarrow> 2 + n))
       (Some (AsnNode TYPE_SEQUENCE 2 2 (40 + (case attrs of None \<Rightarrow> 0 | Some (n, a) \<Rightarrow> 2 + n))
          (Some (AsnNode TYPE_INTEGER 4 2 1 None (Some (sample_sid attrs))))
          None))
       None"

definition sample_signedAttrs_bytes :: "byte list \<Rightarrow> byte list" where
  "sample_signedAttrs_bytes attrs = [0xA0, of_nat (length attrs)] @ attrs"

definition sample_image :: "byte list \<Rightarrow> byte list" where
  "sample_image tlv =
     [0x31, of_nat (42 + length tlv), 0x30, of_nat (40 + length tlv), 0x02, 0x01, 0x01,
      0x30, 0x05, 0x30, 0x00, 0x02, 0x01, 0x2A,
      0x30, 0x09, 0x06, 0x05, 0x2B, 0x0E, 0x03, 0x02, 0x1A, 0x05, 0x00] @ tlv @
     [0x30, 0x0D, 0x06, 0x09, 0x2A, 0x86, 0x48, 0x86, 0xF7, 0x0D, 0x01, 0x01, 0x01, 0x05, 0x00,
      0x04, 0x02, 0xAB, 0xCD]"

text \<open>
  A container as the parser leaves it at \<^verbatim>\<open>KSBA_SR_READY\<close>, with the given tree
  and image. \<open>sample_one\<close> has one well-formed \<^verbatim>\<open>messageDigest\<close> attribute.
\<close>

definition sample_parsed :: "AsnNode \<Rightarrow> byte list \<Rightarrow> cms" where
  "sample_parsed root img =
     \<lparr> reader = Some \<lparr> r_input = [] \<rparr>, writer = None, stop_reason = KSBA_SR_READY,
       content_oid = Some ''1.2.840.113549.1.7.2'', content_ct = KSBA_CT_SIGNED_DATA,
       content_handler = Some H_ct_parse_signed_data,
       encap_cont_type = Some ''1.2.840.113549.1.7.1'',
       digest_algos = [Some ''1.3.14.3.2.26''], cert_list = [],
       signer_info_root = Some root, signer_info_image = Some img,
       signer_info_cache_digest_algo = None, data_digest = None,
       detached_signature = False, hash_fnc = Some 1, hash_fnc_arg = Some 2 \<rparr>"

definition sample_one :: cms where
  "sample_one =
     sample_parsed (sample_SignerInfos (Some (21, sample_Attribute 27 TYPE_SET_OF None)))
       (sample_image (sample_signedAttrs_bytes sample_Attribute_bytes))"

definition sample_cert :: ksba_cert where
  "sample_cert =
     \<lparr> cert_root =
         Some (AsnNode TYPE_SEQUENCE 0 2 12
           (Some (AsnNode TYPE_SEQUENCE 2 2 5
              (Some (AsnNode TYPE_INTEGER 4 2 1 None
                 (Some (AsnNode TYPE_SEQUENCE 7 2 0 None None))))
              None))
           None),
       cert_image = Some [0x30, 0x0C, 0x30, 0x05, 0x02, 0x01, 0x2A, 0x30, 0x00,
                          0x30, 0x00, 0x03, 0x01, 0x00] \<rparr>"

definition sample_digest :: "byte list" where
  "sample_digest =
     [0xAA, 0xF4, 0xC6, 0x1D, 0xDC, 0xC5, 0xE8, 0xA2, 0xDA, 0xBE,
      0xDE, 0x0F, 0x3B, 0x48, 0x2C, 0xD9, 0xAE, 0xA9, 0x43, 0x4D]"

subsection \<open>Sample containers and callers for the properties\<close>

text \<open>The results of \<open>k\<close> calls of \<^verbatim>\<open>ksba_cms_get_digest_algo (cms, 0)\<close> in a row.\<close>

fun repeat_get_digest_algo ::
  "env \<Rightarrow> nat \<Rightarrow> cms option \<Rightarrow> str_heap \<Rightarrow> nat option list \<times> cms option \<times> str_heap" where
  "repeat_get_digest_algo e 0 cmsp h = ([], cmsp, h)"
| "repeat_get_digest_algo e (Suc k) cmsp h =
     (case ksba_cms_get_digest_algo e cmsp 0 h of
        (r, cmsp', h') \<Rightarrow>
          (case repeat_get_digest_algo e k cmsp' h' of
             (rs, cmsp'', h'') \<Rightarrow> (r # rs, cmsp'', h'')))"

text \<open>
  Parsed containers for the message digest accessor: \<open>sample_other_attribute\<close> has
  one attribute that is not \<^verbatim>\<open>messageDigest\<close> (the last arc of its OID is 3),
  \<open>sample_two_attributes\<close> has two \<^verbatim>\<open>messageDigest\<close> attributes, and
  \<open>sample_two_values\<close> has one \<^verbatim>\<open>messageDigest\<close> attribute with two OCTET STRINGs
  in its set.
\<close>

definition sample_other_attribute :: cms where
  "sample_other_attribute =
     sample_parsed (sample_SignerInfos (Some (21, sample_Attribute 27 TYPE_SET_OF None)))
       (sample_image (sample_signedAttrs_bytes (sample_Attribute_bytes[12 := 0x03])))"

definition sample_two_attributes :: cms where
  "sample_two_attributes =
     sample_parsed
       (sample_SignerInfos
          (Some (42, sample_Attribute 27 TYPE_SET_OF (Some (sample_Attribute 48 TYPE_SET_OF None)))))
       (sample_image (sample_signedAttrs_bytes (sample_Attribute_bytes @ sample_Attribute_bytes)))"

definition sample_two_values :: cms where
  "sample_two_values =
     sample_parsed (sample_SignerInfos (Some (27, sample_Attribute_two_values 27 None)))
       (sample_image (sample_signedAttrs_bytes sample_Attribute_two_values_bytes))"

text \<open>
  Sample containers for the parser: \<open>sample_at r\<close> is the sample container stopped
  with reason \<open>r\<close>. The environment \<open>sample_env\<close> parses an attached signature;
  \<open>sample_env_detached\<close> is the same but for its first parser part, which finds a
  detached one.
\<close>

definition sample_at :: "KsbaStopReason \<Rightarrow> cms" where
  "sample_at r = sample_one\<lparr>stop_reason := r\<rparr>"

definition sample_env_detached :: env where
  "sample_env_detached =
     sample_env\<lparr>cms_parse_signed_data_part_1 :=
                  (\<lambda>c. (KSBA_No_Error, c\<lparr>detached_signature := True\<rparr>))\<rparr>"

text \<open>
  \<open>sample_fresh\<close> is a new container with a reader bound; \<open>sample_env_oid s\<close> is
  the sample environment whose ContentInfo parser reads the content type \<open>s\<close>.
\<close>

definition sample_fresh :: cms where
  "sample_fresh =
     \<lparr> reader = Some \<lparr> r_input = [] \<rparr>, writer = None, stop_reason = KSBA_SR_NONE,
       content_oid = None, content_ct = KSBA_CT_NONE, content_handler = None,
       encap_cont_type = None, digest_algos = [], cert_list = [],
       signer_info_root = None, signer_info_image = None,
       signer_info_cache_digest_algo = None, data_digest = None,
       detached_signature = False, hash_fnc = None, hash_fnc_arg = None \<rparr>"

definition sample_env_oid :: "string \<Rightarrow> env" where
  "sample_env_oid s =
     sample_env\<lparr>cms_parse_content_info := (\<lambda>c. (KSBA_No_Error, c\<lparr>content_oid := Some s\<rparr>))\<rparr>"

text \<open>
  Sample containers for the builder: \<open>sample_builder r cls\<close> is a container set up
  for signed data around data, with SHA-1 and a writer, stopped with reason \<open>r\<close>,
  whose signer records are \<open>cls\<close>; \<open>sample_signer n\<close> is the record of a signer
  with the first \<open>n\<close> bytes of the sample digest preset.
\<close>

definition sample_signer :: "nat \<Rightarrow> certlist_s" where
  "sample_signer n =
     \<lparr> cert = Some sample_cert, msg_digest_len = n,
       msg_digest = take n sample_digest @ replicate (24 - n) 0,
       attr_root = None, attr_image = None \<rparr>"

definition sample_builder :: "KsbaStopReason \<Rightarrow> certlist_s list \<Rightarrow> cms" where
  "sample_builder r cls =
     \<lparr> reader = None, writer = Some \<lparr> w_output = [] \<rparr>, stop_reason = r,
       content_oid = Some ''1.2.840.113549.1.7.2'', content_ct = KSBA_CT_SIGNED_DATA,
       content_handler = Some H_ct_build_signed_data,
       encap_cont_type = Some ''1.2.840.113549.1.7.1'',
       digest_algos = [Some ''1.3.14.3.2.26''], cert_list = cls,
       signer_info_root = None, signer_info_image = None,
       signer_info_cache_digest_algo = None, data_digest = None,
       detached_signature = False, hash_fnc = None, hash_fnc_arg = None \<rparr>"

text \<open>
  \<open>sample_signer_done\<close> is the record \<open>sample_signer 20\<close> once the builder has
  stored the signed attributes on it.
\<close>

definition sample_signer_done :: certlist_s where
  "sample_signer_done =
     (sample_signer 20)\<lparr>attr_root := Some (fst (snd (sample_encode template_Attribute))),
                        attr_image := Some [0x30, 0x00]\<rparr>"

text \<open>
  What the two parts of the signed data parser (in another file of the library) are
  taken to leave alone: the stored stop reason and the installed handler.
\<close>

definition parser_keeps_protocol :: "env \<Rightarrow> bool" where
  "parser_keeps_protocol e =
     (\<forall>c. stop_reason (snd (cms_parse_signed_data_part_1 e c)) = stop_reason c
          \<and> content_handler (snd (cms_parse_signed_data_part_1 e c)) = content_handler c
          \<and> stop_reason (snd (cms_parse_signed_data_part_2 e c)) = stop_reason c
          \<and> content_handler (snd (cms_parse_signed_data_part_2 e c)) = content_handler c)"

text \<open>A caller that goes on calling the two entry points, and the errors it gets.\<close>

datatype entry_point = Parse | Build

definition call_entry ::
  "env \<Rightarrow> entry_point \<Rightarrow> cms option
     \<Rightarrow> (KsbaError \<times> cms option \<times> KsbaStopReason option) outcome" where
  "call_entry e k cmsp =
     (case k of Parse \<Rightarrow> ksba_cms_parse e cmsp True | Build \<Rightarrow> ksba_cms_build e cmsp True)"

fun later_calls ::
  "env \<Rightarrow> entry_point list \<Rightarrow> cms option \<Rightarrow> (KsbaError list \<times> cms option) outcome" where
  "later_calls e [] cmsp = Returns ([], cmsp)"
| "later_calls e (k # ks) cmsp =
     (case call_entry e k cmsp of
        Faults f \<Rightarrow> Faults f
      | Returns (err, cmsp', r) \<Rightarrow>
          (case later_calls e ks cmsp' of
             Faults f \<Rightarrow> Faults f
           | Returns (errs, cmsp'') \<Rightarrow> Returns (err # errs, cmsp'')))"

section \<open>Properties\<close>

lemmas sample_tree_defs =
  sample_one_def sample_parsed_def sample_SignerInfos_def sample_sid_def
  sample_digestAlgorithm_def sample_signedAttrs_def sample_signatureAlgorithm_def
  sample_Attribute_def sample_Attribute_two_values_def sample_image_def
  sample_signedAttrs_bytes_def sample_Attribute_bytes_def
  sample_Attribute_two_values_bytes_def

lemmas sample_env_defs = sample_env_def sample_ways_def sample_write_def tag_octet_def
  sample_encode_def

lemmas sample_cms_defs =
  sample_other_attribute_def sample_two_attributes_def sample_two_values_def

subsection \<open>Hashing the signed attributes\<close>

text \<open>
  C1. Let the container have a registered hash function and stored signed attributes:
  the node \<^verbatim>\<open>SignerInfos..signedAttrs\<close> is found in \<^verbatim>\<open>signer_info.root\<close>, and its
  TLV (offset \<open>off\<close>, header length \<open>nhdr\<close>, content length \<open>len\<close>) lies in
  \<^verbatim>\<open>signer_info.image\<close>. Then \<^verbatim>\<open>ksba_cms_hash_signed_attrs\<close> with index 0 succeeds
  and calls the hash function twice: with the one byte \<open>0x31\<close>, and with the
  \<open>nhdr + len - 1\<close> bytes of the image from \<open>off + 1\<close> on. The bytes fed begin
  with \<open>0x31\<close> and are \<open>1 + (nhdr + len - 1)\<close> in number.
\<close>

theorem C1_hash_signed_attrs:
  assumes "hash_fnc c \<noteq> None"
      and "ksba_asn_find_node e (signer_info_root c) ''SignerInfos..signedAttrs'' = Some (p, n)"
      and "signer_info_image c = Some img"
      and "0 \<le> n_off n" and "1 \<le> n_nhdr n + n_len n"
      and "n_off n + n_nhdr n + n_len n \<le> int (length img)"
  shows "ksba_cms_hash_signed_attrs e (Some c) 0
           = Returns (KSBA_No_Error,
                      [[0x31], take (nat (n_nhdr n + n_len n - 1)) (drop (nat (n_off n + 1)) img)])
         \<and> hd (concat [[0x31 :: byte],
                         take (nat (n_nhdr n + n_len n - 1)) (drop (nat (n_off n + 1)) img)])
             = 0x31
         \<and> int (length (concat [[0x31 :: byte],
                         take (nat (n_nhdr n + n_len n - 1)) (drop (nat (n_off n + 1)) img)]))
             = 1 + (n_nhdr n + n_len n - 1)"
  using assms by (auto simp: ksba_cms_hash_signed_attrs_def mem_read_def)

theorem C1_hash_signed_attrs_witness:
  "hash_fnc sample_one \<noteq> None
   \<and> ksba_asn_find_node sample_env (signer_info_root sample_one) ''SignerInfos..signedAttrs''
       = Some ([DOWN, DOWN, RIGHT, RIGHT, RIGHT],
               sample_signedAttrs 21 (sample_Attribute 27 TYPE_SET_OF None))
   \<and> signer_info_image sample_one
       = Some (sample_image (sample_signedAttrs_bytes sample_Attribute_bytes))
   \<and> n_off (sample_signedAttrs 21 (sample_Attribute 27 TYPE_SET_OF None)) = 25
   \<and> n_nhdr (sample_signedAttrs 21 (sample_Attribute 27 TYPE_SET_OF None)) = 2
   \<and> n_len (sample_signedAttrs 21 (sample_Attribute 27 TYPE_SET_OF None)) = 21
   \<and> length (sample_image (sample_signedAttrs_bytes sample_Attribute_bytes)) = 67
   \<and> ksba_cms_hash_signed_attrs sample_env (Some sample_one) 0
       = Returns (KSBA_No_Error,
                  [[0x31],
                   [0x15, 0x30, 0x13, 0x06, 0x09, 0x2A, 0x86, 0x48, 0x86, 0xF7, 0x0D, 0x01, 0x09,
                    0x04, 0x31, 0x06, 0x04, 0x04, 0xDE, 0xAD, 0xBE, 0xEF]])"
proof -
  let ?n = "sample_signedAttrs 21 (sample_Attribute 27 TYPE_SET_OF None)"
  have h1: "hash_fnc sample_one \<noteq> None"
    by (simp add: sample_tree_defs)
  have h2: "ksba_asn_find_node sample_env (signer_info_root sample_one) ''SignerInfos..signedAttrs''
       = Some ([DOWN, DOWN, RIGHT, RIGHT, RIGHT], ?n)"
    by (simp add: sample_tree_defs sample_env_defs ksba_asn_find_node_def)
  have h3: "signer_info_image sample_one
       = Some (sample_image (sample_signedAttrs_bytes sample_Attribute_bytes))"
    by (simp add: sample_tree_defs)
  have h4: "n_off ?n = 25" "n_nhdr ?n = 2" "n_len ?n = 21"
    by (simp_all add: sample_tree_defs)
  have h5: "length (sample_image (sample_signedAttrs_bytes sample_Attribute_bytes)) = 67"
    by (simp add: sample_tree_defs)
  have "ksba_cms_hash_signed_attrs sample_env (Some sample_one) 0
       = Returns (KSBA_No_Error,
                  [[0x31],
                   [0x15, 0x30, 0x13, 0x06, 0x09, 0x2A, 0x86, 0x48, 0x86, 0xF7, 0x0D, 0x01, 0x09,
                    0x04, 0x31, 0x06, 0x04, 0x04, 0xDE, 0xAD, 0xBE, 0xEF]])"
    using C1_hash_signed_attrs [OF h1 h2 h3] h4 h5 by (simp add: sample_tree_defs)
  with h1 h2 h3 h4 h5 show ?thesis by simp
qed

subsection \<open>The digest algorithm of the signer\<close>

lemma get_digest_algo_again:
  assumes "signer_info_root c \<noteq> None"
      and "ksba_cms_get_digest_algo e (Some c) 0 h = (r1, c1, h1)"
  shows "ksba_cms_get_digest_algo e c1 0 h1 = (r1, c1, h1)"
  using assms
  by (auto simp: ksba_cms_get_digest_algo_def str_alloc_def split: option.splits if_splits)

lemma get_digest_algo_cached:
  assumes "signer_info_root c \<noteq> None"
      and "ksba_cms_get_digest_algo e (Some c) 0 h = (r1, c1, h1)"
  shows "\<exists>c'. c1 = Some c' \<and> signer_info_root c' \<noteq> None
              \<and> signer_info_cache_digest_algo c' = r1"
  using assms
  by (auto simp: ksba_cms_get_digest_algo_def str_alloc_def split: option.splits if_splits)

lemma repeat_get_digest_algo_fixed:
  assumes "ksba_cms_get_digest_algo e cmsp 0 h = (r, cmsp, h)"
  shows "repeat_get_digest_algo e k cmsp h = (replicate k r, cmsp, h)"
  using assms by (induction k) auto

lemma get_digest_algo_string:
  assumes "signer_info_root c \<noteq> None"
      and "ksba_cms_get_digest_algo e (Some c) 0 h = (r1, c1, h1)"
      and "signer_info_cache_digest_algo c = None"
  shows "map_option (\<lambda>a. if a < length h1 then Some (h1 ! a) else None) r1
           = map_option Some
               (oid_node_to_str e (signer_info_image c)
                  (map_option snd
                     (ksba_asn_find_node e (signer_info_root c)
                        ''SignerInfos..digestAlgorithm.algorithm'')))"
proof (cases "oid_node_to_str e (signer_info_image c)
                (map_option snd
                   (ksba_asn_find_node e (signer_info_root c)
                      ''SignerInfos..digestAlgorithm.algorithm''))")
  case None
  with assms show ?thesis
    by (auto simp add: ksba_cms_get_digest_algo_def)
next
  case (Some s)
  with assms have "r1 = Some (length h)" "h1 = h @ [s]"
    by (auto simp add: ksba_cms_get_digest_algo_def str_alloc_def)
  with Some show ?thesis by simp
qed

text \<open>
  C9. For a container with a parsed \<^verbatim>\<open>SignerInfos\<close> tree, let the first call of
  \<^verbatim>\<open>ksba_cms_get_digest_algo\<close> with index 0 return the pointer \<open>r1\<close> and leave the
  container \<open>c1\<close> and the string heap \<open>h1\<close>. Then a second call returns the same
  pointer and changes neither the container nor the heap (so nothing is allocated
  again); any number of calls in a row all return \<open>r1\<close>; after the first call the
  cache field of the container holds \<open>r1\<close>; and when the cache was empty before,
  the string at \<open>r1\<close> is the one the OID of the node
  \<^verbatim>\<open>SignerInfos..digestAlgorithm.algorithm\<close> converts to (\<open>r1\<close> is null exactly when
  the conversion gives null).
\<close>

theorem C9_get_digest_algo_idempotent:
  assumes "signer_info_root c \<noteq> None"
      and "ksba_cms_get_digest_algo e (Some c) 0 h = (r1, c1, h1)"
  shows "ksba_cms_get_digest_algo e c1 0 h1 = (r1, c1, h1)
       \<and> repeat_get_digest_algo e (Suc k) (Some c) h = (replicate (Suc k) r1, c1, h1)
       \<and> map_option signer_info_cache_digest_algo c1 = Some r1
       \<and> (signer_info_cache_digest_algo c = None \<longrightarrow>
            map_option (\<lambda>a. if a < length h1 then Some (h1 ! a) else None) r1
              = map_option Some
                  (oid_node_to_str e (signer_info_image c)
                     (map_option snd
                        (ksba_asn_find_node e (signer_info_root c)
                           ''SignerInfos..digestAlgorithm.algorithm''))))"
proof -
  from get_digest_algo_cached [OF assms] obtain c' where
    c': "c1 = Some c'" "signer_info_cache_digest_algo c' = r1"
    by blast
  have again: "ksba_cms_get_digest_algo e c1 0 h1 = (r1, c1, h1)"
    by (rule get_digest_algo_again [OF assms])
  have "repeat_get_digest_algo e k c1 h1 = (replicate k r1, c1, h1)"
    by (rule repeat_get_digest_algo_fixed [OF again])
  with assms(2) have rep:
    "repeat_get_digest_algo e (Suc k) (Some c) h = (replicate (Suc k) r1, c1, h1)"
    by simp
  have cache: "map_option signer_info_cache_digest_algo c1 = Some r1"
    using c' by simp
  from again rep cache get_digest_algo_string [OF assms] show ?thesis
    by blast
qed

theorem C9_get_digest_algo_idempotent_witness:
  "signer_info_root sample_one \<noteq> None
   \<and> ksba_cms_get_digest_algo sample_env (Some sample_one) 0 [''an earlier string'']
       = (Some 1, Some (sample_one\<lparr>signer_info_cache_digest_algo := Some 1\<rparr>),
          [''an earlier string'', ''1.3.14.3.2.26''])
   \<and> ksba_cms_get_digest_algo sample_env
         (Some (sample_one\<lparr>signer_info_cache_digest_algo := Some 1\<rparr>)) 0
         [''an earlier string'', ''1.3.14.3.2.26'']
       = (Some 1, Some (sample_one\<lparr>signer_info_cache_digest_algo := Some 1\<rparr>),
          [''an earlier string'', ''1.3.14.3.2.26''])
   \<and> repeat_get_digest_algo sample_env 3 (Some sample_one) [''an earlier string'']
       = ([Some 1, Some 1, Some 1],
          Some (sample_one\<lparr>signer_info_cache_digest_algo := Some 1\<rparr>),
          [''an earlier string'', ''1.3.14.3.2.26''])"
proof -
  have h1: "signer_info_root sample_one \<noteq> None"
    by (simp add: sample_one_def sample_parsed_def)
  have h2: "ksba_cms_get_digest_algo sample_env (Some sample_one) 0 [''an earlier string'']
       = (Some 1, Some (sample_one\<lparr>signer_info_cache_digest_algo := Some 1\<rparr>),
          [''an earlier string'', ''1.3.14.3.2.26''])"
    by (simp add: ksba_cms_get_digest_algo_def ksba_asn_find_node_def str_alloc_def
          sample_tree_defs sample_env_defs)
  from C9_get_digest_algo_idempotent [OF h1 h2, of 2] h1 h2 show ?thesis
    by (simp add: numeral_3_eq_3)
qed

subsection \<open>Issuer and serial number of the signer\<close>

lemma get_issuer_serial_ignores_idx:
  "ksba_cms_get_issuer_serial e cmsp idx r_issuer r_serial
     = ksba_cms_get_issuer_serial e cmsp 0 r_issuer r_serial"
  by (simp add: ksba_cms_get_issuer_serial_def)

text \<open>
  C8. \<^verbatim>\<open>ksba_cms_get_issuer_serial\<close> never looks at its index (the lemma above). On
  the sample container, which holds one signer, the call with index 1 succeeds and
  hands out issuer and serial number of that signer; it does not return
  \<^verbatim>\<open>KSBA_Not_Implemented\<close>, as the accessors next to it do for an index other than 0.
\<close>

theorem C8_get_issuer_serial_index_1:
  "ksba_cms_get_issuer_serial sample_env (Some sample_one) 1 True True
     = Returns (KSBA_No_Error, Some ''CN=signer'', Some [0x00, 0x00, 0x00, 0x01, 0x2A])"
  by (simp add: ksba_cms_get_issuer_serial_def get_issuer_def get_serial_def
        ksba_asn_find_node_def mem_read_def sample_tree_defs sample_env_defs)

subsection \<open>The message digest attribute\<close>

text \<open>
  C4, as the claim states it, fails: the sample container below has a parsed
  \<^verbatim>\<open>SignerInfos\<close> tree without signed attributes, so no \<^verbatim>\<open>messageDigest\<close> attribute
  is there (the search finds none anywhere in the tree), and the call with index 0
  returns success with a null digest, not \<^verbatim>\<open>KSBA_Value_Not_Found\<close>.
\<close>

theorem C4_absent_without_signedAttrs_counterexample:
  "signer_info_root (sample_parsed (sample_SignerInfos None) (sample_image [])) \<noteq> None
   \<and> asn_find_type_value sample_env (Some (sample_image []))
         (Some (sample_SignerInfos None)) 0 oid_messageDigest = None
   \<and> ksba_cms_get_message_digest sample_env
         (Some (sample_parsed (sample_SignerInfos None) (sample_image []))) 0 True True
       = Returns (KSBA_No_Error, Some (None, 0))"
  by (simp add: ksba_cms_get_message_digest_def ksba_asn_find_node_def
        sample_tree_defs sample_env_defs)

text \<open>
  C4, amended. For a container with a parsed \<^verbatim>\<open>SignerInfos\<close> tree, index 0 and both
  output pointers given: when the node \<^verbatim>\<open>SignerInfos..signedAttrs\<close> is not found the
  call returns success and a null digest (the element is optional). When it is
  found, the call returns \<^verbatim>\<open>KSBA_Value_Not_Found\<close> if the search finds no
  \<^verbatim>\<open>messageDigest\<close> attribute in it; otherwise \<^verbatim>\<open>KSBA_Duplicate_Value\<close> if the
  search finds a second one; otherwise \<^verbatim>\<open>KSBA_Invalid_CMS_Object\<close> if the value of
  the one attribute is not a SET OF with exactly one OCTET STRING.
\<close>

theorem C4_get_message_digest_errors:
  assumes "signer_info_root c \<noteq> None"
  shows "(ksba_asn_find_node e (signer_info_root c) ''SignerInfos..signedAttrs'' = None \<longrightarrow>
            ksba_cms_get_message_digest e (Some c) 0 True True
              = Returns (KSBA_No_Error, Some (None, 0)))
       \<and> (\<forall>p nsiginfo.
            ksba_asn_find_node e (signer_info_root c) ''SignerInfos..signedAttrs''
              = Some (p, nsiginfo) \<longrightarrow>
            (asn_find_type_value e (signer_info_image c) (Some nsiginfo) 0 oid_messageDigest
               = None \<longrightarrow>
               ksba_cms_get_message_digest e (Some c) 0 True True
                 = Returns (KSBA_Value_Not_Found, Some (None, 0)))
          \<and> (asn_find_type_value e (signer_info_image c) (Some nsiginfo) 0 oid_messageDigest
                \<noteq> None
              \<and> asn_find_type_value e (signer_info_image c) (Some nsiginfo) 1 oid_messageDigest
                  \<noteq> None \<longrightarrow>
               ksba_cms_get_message_digest e (Some c) 0 True True
                 = Returns (KSBA_Duplicate_Value, Some (None, 0)))
          \<and> (\<forall>n. asn_find_type_value e (signer_info_image c) (Some nsiginfo) 0
                     oid_messageDigest = Some n
                   \<and> asn_find_type_value e (signer_info_image c) (Some nsiginfo) 1
                       oid_messageDigest = None
                   \<and> \<not> set_of_one_octet_string n \<longrightarrow>
                 ksba_cms_get_message_digest e (Some c) 0 True True
                   = Returns (KSBA_Invalid_CMS_Object, Some (None, 0))))"
  using assms by (auto simp: ksba_cms_get_message_digest_def)

text \<open>
  The four cases on sample containers: no signed attributes; one attribute that is
  not \<^verbatim>\<open>messageDigest\<close>; two \<^verbatim>\<open>messageDigest\<close> attributes; one
  \<^verbatim>\<open>messageDigest\<close> attribute with two OCTET STRINGs in its set.
\<close>

theorem C4_get_message_digest_errors_witness:
  "ksba_cms_get_message_digest sample_env
       (Some (sample_parsed (sample_SignerInfos None) (sample_image []))) 0 True True
     = Returns (KSBA_No_Error, Some (None, 0))
   \<and> ksba_cms_get_message_digest sample_env (Some sample_other_attribute) 0 True True
     = Returns (KSBA_Value_Not_Found, Some (None, 0))
   \<and> ksba_cms_get_message_digest sample_env (Some sample_two_attributes) 0 True True
     = Returns (KSBA_Duplicate_Value, Some (None, 0))
   \<and> ksba_cms_get_message_digest sample_env (Some sample_two_values) 0 True True
     = Returns (KSBA_Invalid_CMS_Object, Some (None, 0))"
proof -
  let ?none = "sample_parsed (sample_SignerInfos None) (sample_image [])"
  have r0: "signer_info_root ?none \<noteq> None"
    and r1: "signer_info_root sample_other_attribute \<noteq> None"
    and r2: "signer_info_root sample_two_attributes \<noteq> None"
    and r3: "signer_info_root sample_two_values \<noteq> None"
    by (simp_all add: sample_cms_defs sample_parsed_def)
  have f0: "ksba_asn_find_node sample_env (signer_info_root ?none) ''SignerInfos..signedAttrs''
              = None"
    by (simp add: ksba_asn_find_node_def sample_tree_defs sample_env_defs)
  have c0: "ksba_cms_get_message_digest sample_env (Some ?none) 0 True True
              = Returns (KSBA_No_Error, Some (None, 0))"
    using C4_get_message_digest_errors [OF r0, of sample_env] f0 by blast
  have f1: "ksba_asn_find_node sample_env (signer_info_root sample_other_attribute)
              ''SignerInfos..signedAttrs''
              = Some ([DOWN, DOWN, RIGHT, RIGHT, RIGHT],
                      sample_signedAttrs 21 (sample_Attribute 27 TYPE_SET_OF None))"
    by (simp add: ksba_asn_find_node_def sample_cms_defs sample_tree_defs sample_env_defs)
  have v1: "asn_find_type_value sample_env (signer_info_image sample_other_attribute)
              (Some (sample_signedAttrs 21 (sample_Attribute 27 TYPE_SET_OF None))) 0
              oid_messageDigest = None"
    by (simp add: sample_cms_defs sample_tree_defs sample_env_defs mem_read_def
          oid_messageDigest_def)
  have c1: "ksba_cms_get_message_digest sample_env (Some sample_other_attribute) 0 True True
              = Returns (KSBA_Value_Not_Found, Some (None, 0))"
    using C4_get_message_digest_errors [OF r1, of sample_env] f1 v1 by blast
  let ?two = "sample_signedAttrs 42
                (sample_Attribute 27 TYPE_SET_OF (Some (sample_Attribute 48 TYPE_SET_OF None)))"
  have f2: "ksba_asn_find_node sample_env (signer_info_root sample_two_attributes)
              ''SignerInfos..signedAttrs''
              = Some ([DOWN, DOWN, RIGHT, RIGHT, RIGHT], ?two)"
    by (simp add: ksba_asn_find_node_def sample_cms_defs sample_tree_defs sample_env_defs)
  have v2: "asn_find_type_value sample_env (signer_info_image sample_two_attributes)
              (Some ?two) 0 oid_messageDigest \<noteq> None"
           "asn_find_type_value sample_env (signer_info_image sample_two_attributes)
              (Some ?two) 1 oid_messageDigest \<noteq> None"
    by (simp_all add: sample_cms_defs sample_tree_defs sample_env_defs mem_read_def
          oid_messageDigest_def)
  have c2: "ksba_cms_get_message_digest sample_env (Some sample_two_attributes) 0 True True
              = Returns (KSBA_Duplicate_Value, Some (None, 0))"
    using C4_get_message_digest_errors [OF r2, of sample_env] f2 v2 by blast
  let ?val = "AsnNode TYPE_SET_OF 40 2 12
                (Some (AsnNode TYPE_OCTET_STRING 42 2 4 None
                   (Some (AsnNode TYPE_OCTET_STRING 48 2 4 None None))))
                None"
  have f3: "ksba_asn_find_node sample_env (signer_info_root sample_two_values)
              ''SignerInfos..signedAttrs''
              = Some ([DOWN, DOWN, RIGHT, RIGHT, RIGHT],
                      sample_signedAttrs 27 (sample_Attribute_two_values 27 None))"
    by (simp add: ksba_asn_find_node_def sample_cms_defs sample_tree_defs sample_env_defs)
  have v3: "asn_find_type_value sample_env (signer_info_image sample_two_values)
              (Some (sample_signedAttrs 27 (sample_Attribute_two_values 27 None))) 0
              oid_messageDigest = Some ?val"
           "asn_find_type_value sample_env (signer_info_image sample_two_values)
              (Some (sample_signedAttrs 27 (sample_Attribute_two_values 27 None))) 1
              oid_messageDigest = None"
           "\<not> set_of_one_octet_string ?val"
    by (simp_all add: sample_cms_defs sample_tree_defs sample_env_defs mem_read_def
          oid_messageDigest_def set_of_one_octet_string_def)
  have c3: "ksba_cms_get_message_digest sample_env (Some sample_two_values) 0 True True
              = Returns (KSBA_Invalid_CMS_Object, Some (None, 0))"
    using C4_get_message_digest_errors [OF r3, of sample_env] f3 v3 by blast
  from c0 c1 c2 c3 show ?thesis by simp
qed

subsection \<open>The steps of the signed data parser\<close>

text \<open>
  C3. Let a step of \<^verbatim>\<open>ct_parse_signed_data\<close> succeed and leave the container \<open>c'\<close>.
  If the stop reason before the call was \<^verbatim>\<open>GOT_CONTENT\<close> (state START), the new stop
  reason is \<^verbatim>\<open>NEED_HASH\<close> when \<open>c'\<close> has the detached signature flag set and no
  digest in \<^verbatim>\<open>data.digest\<close>, and \<^verbatim>\<open>BEGIN_DATA\<close> otherwise. If it was
  \<^verbatim>\<open>BEGIN_DATA\<close> (state IN_DATA), the container is the one before the call but for
  the stop reason \<^verbatim>\<open>END_DATA\<close>; with a hash function registered this step always
  succeeds. If it was \<^verbatim>\<open>NEED_HASH\<close> or \<^verbatim>\<open>END_DATA\<close> (state GOT_HASH), the new
  stop reason is \<^verbatim>\<open>READY\<close>.
\<close>

theorem C3_parse_signed_data_next_stop:
  "(stop_reason c = KSBA_SR_GOT_CONTENT \<and> ct_parse_signed_data e c = (KSBA_No_Error, c') \<longrightarrow>
      stop_reason c' = (if detached_signature c' \<and> data_digest c' = None
                        then KSBA_SR_NEED_HASH else KSBA_SR_BEGIN_DATA))
   \<and> (stop_reason c = KSBA_SR_BEGIN_DATA \<and> ct_parse_signed_data e c = (KSBA_No_Error, c') \<longrightarrow>
      c' = c\<lparr>stop_reason := KSBA_SR_END_DATA\<rparr>)
   \<and> (stop_reason c = KSBA_SR_BEGIN_DATA \<and> hash_fnc c \<noteq> None \<longrightarrow>
      ct_parse_signed_data e c = (KSBA_No_Error, c\<lparr>stop_reason := KSBA_SR_END_DATA\<rparr>))
   \<and> ((stop_reason c = KSBA_SR_NEED_HASH \<or> stop_reason c = KSBA_SR_END_DATA)
       \<and> ct_parse_signed_data e c = (KSBA_No_Error, c') \<longrightarrow>
      stop_reason c' = KSBA_SR_READY)"
  by (auto simp: ct_parse_signed_data_def Let_def split: prod.splits if_splits)

theorem C3_parse_signed_data_next_stop_witness:
  "ct_parse_signed_data sample_env (sample_at KSBA_SR_GOT_CONTENT)
     = (KSBA_No_Error, sample_at KSBA_SR_BEGIN_DATA)
   \<and> ct_parse_signed_data sample_env_detached (sample_at KSBA_SR_GOT_CONTENT)
     = (KSBA_No_Error, (sample_at KSBA_SR_NEED_HASH)\<lparr>detached_signature := True\<rparr>)
   \<and> ct_parse_signed_data sample_env (sample_at KSBA_SR_BEGIN_DATA)
     = (KSBA_No_Error, sample_at KSBA_SR_END_DATA)
   \<and> ct_parse_signed_data sample_env (sample_at KSBA_SR_NEED_HASH)
     = (KSBA_No_Error, sample_at KSBA_SR_READY)
   \<and> ct_parse_signed_data sample_env (sample_at KSBA_SR_END_DATA)
     = (KSBA_No_Error, sample_at KSBA_SR_READY)
   \<and> stop_reason (sample_at KSBA_SR_BEGIN_DATA) = KSBA_SR_BEGIN_DATA
   \<and> stop_reason ((sample_at KSBA_SR_NEED_HASH)\<lparr>detached_signature := True\<rparr>)
       = KSBA_SR_NEED_HASH
   \<and> stop_reason (sample_at KSBA_SR_END_DATA) = KSBA_SR_END_DATA
   \<and> stop_reason (sample_at KSBA_SR_READY) = KSBA_SR_READY"
proof -
  have run:
    "ct_parse_signed_data sample_env (sample_at KSBA_SR_GOT_CONTENT)
       = (KSBA_No_Error, sample_at KSBA_SR_BEGIN_DATA)"
    "ct_parse_signed_data sample_env_detached (sample_at KSBA_SR_GOT_CONTENT)
       = (KSBA_No_Error, (sample_at KSBA_SR_NEED_HASH)\<lparr>detached_signature := True\<rparr>)"
    "ct_parse_signed_data sample_env (sample_at KSBA_SR_NEED_HASH)
       = (KSBA_No_Error, sample_at KSBA_SR_READY)"
    "ct_parse_signed_data sample_env (sample_at KSBA_SR_END_DATA)
       = (KSBA_No_Error, sample_at KSBA_SR_READY)"
    by (simp_all add: ct_parse_signed_data_def sample_at_def sample_env_detached_def
          sample_env_def sample_one_def sample_parsed_def)
  have pre: "stop_reason (sample_at KSBA_SR_BEGIN_DATA) = KSBA_SR_BEGIN_DATA"
            "hash_fnc (sample_at KSBA_SR_BEGIN_DATA) \<noteq> None"
            "stop_reason (sample_at KSBA_SR_GOT_CONTENT) = KSBA_SR_GOT_CONTENT"
            "stop_reason (sample_at KSBA_SR_NEED_HASH) = KSBA_SR_NEED_HASH"
            "stop_reason (sample_at KSBA_SR_END_DATA) = KSBA_SR_END_DATA"
    by (simp_all add: sample_at_def sample_one_def sample_parsed_def)
  have in_data: "ct_parse_signed_data sample_env (sample_at KSBA_SR_BEGIN_DATA)
                   = (KSBA_No_Error, sample_at KSBA_SR_END_DATA)"
    using C3_parse_signed_data_next_stop
            [of "sample_at KSBA_SR_BEGIN_DATA" sample_env "sample_at KSBA_SR_END_DATA"] pre
    by (simp add: sample_at_def)
  have s1: "stop_reason (sample_at KSBA_SR_BEGIN_DATA)
              = (if detached_signature (sample_at KSBA_SR_BEGIN_DATA)
                    \<and> data_digest (sample_at KSBA_SR_BEGIN_DATA) = None
                 then KSBA_SR_NEED_HASH else KSBA_SR_BEGIN_DATA)"
    using C3_parse_signed_data_next_stop
            [of "sample_at KSBA_SR_GOT_CONTENT" sample_env "sample_at KSBA_SR_BEGIN_DATA"]
          run(1) pre(3)
    by blast
  have s2: "stop_reason ((sample_at KSBA_SR_NEED_HASH)\<lparr>detached_signature := True\<rparr>)
              = KSBA_SR_NEED_HASH"
    using C3_parse_signed_data_next_stop
            [of "sample_at KSBA_SR_GOT_CONTENT" sample_env_detached
                "(sample_at KSBA_SR_NEED_HASH)\<lparr>detached_signature := True\<rparr>"]
          run(2) pre(3)
    by (simp add: sample_at_def sample_one_def sample_parsed_def)
  have s3: "stop_reason (sample_at KSBA_SR_READY) = KSBA_SR_READY"
    using C3_parse_signed_data_next_stop
            [of "sample_at KSBA_SR_NEED_HASH" sample_env "sample_at KSBA_SR_READY"]
          run(3) pre(4)
    by blast
  have s4: "stop_reason (sample_at KSBA_SR_END_DATA) = KSBA_SR_END_DATA"
    by (rule pre(5))
  from run in_data s1 s2 s3 s4 pre(1) show ?thesis by simp
qed

subsection \<open>The first call of the parser\<close>

lemma find_content_handler_None:
  "find_content_handler rows s = None \<longleftrightarrow> s \<notin> set (map oid rows)"
  by (induction rows) auto

lemma find_content_handler_Some:
  "find_content_handler rows s = Some row \<Longrightarrow> row \<in> set rows \<and> oid row = s"
  by (induction rows) (auto split: if_splits)

text \<open>
  C6. Let the stored stop reason be the initial one and let the outer ContentInfo be
  read successfully, with content OID \<open>s\<close>. If \<open>s\<close> is the OID of no row of
  \<open>content_handlers\<close>, \<^verbatim>\<open>ksba_cms_parse\<close> returns \<^verbatim>\<open>KSBA_Unknown_CMS_Object\<close>. If
  \<open>s\<close> is the OID of authenticated data, whose row has no parse handler, it returns
  \<^verbatim>\<open>KSBA_Unsupported_CMS_Object\<close>. For every other OID of the table it succeeds: the
  container holds the content type and the parse handler of the row with that OID,
  and the stop reason, stored and returned, is \<^verbatim>\<open>GOT_CONTENT\<close>.
\<close>

theorem C6_parse_dispatch:
  assumes "stop_reason c = KSBA_SR_NONE"
      and "cms_parse_content_info e c = (KSBA_No_Error, c1)"
      and "content_oid c1 = Some s"
  shows "(s \<notin> set (map oid content_handlers) \<longrightarrow>
            ksba_cms_parse e (Some c) True
              = Returns (KSBA_Unknown_CMS_Object, Some c1, Some KSBA_SR_RUNNING))
       \<and> (s = ''1.2.840.113549.1.9.16.1.2'' \<longrightarrow>
            ksba_cms_parse e (Some c) True
              = Returns (KSBA_Unsupported_CMS_Object, Some c1, Some KSBA_SR_RUNNING))
       \<and> (s \<in> set (map oid content_handlers) \<and> s \<noteq> ''1.2.840.113549.1.9.16.1.2'' \<longrightarrow>
            (\<exists>row h. row \<in> set content_handlers \<and> oid row = s \<and> parse_handler row = Some h
               \<and> ksba_cms_parse e (Some c) True
                   = Returns (KSBA_No_Error,
                              Some (c1\<lparr>content_ct := ct row, content_handler := Some h,
                                       stop_reason := KSBA_SR_GOT_CONTENT\<rparr>),
                              Some KSBA_SR_GOT_CONTENT)))"
proof (intro conjI impI)
  assume "s \<notin> set (map oid content_handlers)"
  then have "find_content_handler content_handlers s = None"
    by (simp add: find_content_handler_None)
  with assms show "ksba_cms_parse e (Some c) True
              = Returns (KSBA_Unknown_CMS_Object, Some c1, Some KSBA_SR_RUNNING)"
    by (simp add: ksba_cms_parse_def)
next
  assume "s = ''1.2.840.113549.1.9.16.1.2''"
  with assms show "ksba_cms_parse e (Some c) True
              = Returns (KSBA_Unsupported_CMS_Object, Some c1, Some KSBA_SR_RUNNING)"
    by (simp add: ksba_cms_parse_def content_handlers_def)
next
  assume a: "s \<in> set (map oid content_handlers) \<and> s \<noteq> ''1.2.840.113549.1.9.16.1.2''"
  then obtain row where row: "find_content_handler content_handlers s = Some row"
    using find_content_handler_None [of content_handlers s] by auto
  from find_content_handler_Some [OF row]
  have mem: "row \<in> set content_handlers" "oid row = s" by simp_all
  with a obtain h where h: "parse_handler row = Some h"
    by (auto simp: content_handlers_def)
  from assms row h have
    "ksba_cms_parse e (Some c) True
       = Returns (KSBA_No_Error,
                  Some (c1\<lparr>content_ct := ct row, content_handler := Some h,
                           stop_reason := KSBA_SR_GOT_CONTENT\<rparr>),
                  Some KSBA_SR_GOT_CONTENT)"
    by (simp add: ksba_cms_parse_def)
  with mem h show "\<exists>row h. row \<in> set content_handlers \<and> oid row = s \<and> parse_handler row = Some h
               \<and> ksba_cms_parse e (Some c) True
                   = Returns (KSBA_No_Error,
                              Some (c1\<lparr>content_ct := ct row, content_handler := Some h,
                                       stop_reason := KSBA_SR_GOT_CONTENT\<rparr>),
                              Some KSBA_SR_GOT_CONTENT)"
    by blast
qed

theorem C6_parse_dispatch_witness:
  "ksba_cms_set_reader_writer (ksba_cms_new sample_env) (Some \<lparr> r_input = [] \<rparr>) None
     = (KSBA_No_Error, Some sample_fresh)
   \<and> ksba_cms_parse (sample_env_oid ''1.2.3.4'') (Some sample_fresh) True
     = Returns (KSBA_Unknown_CMS_Object,
                Some (sample_fresh\<lparr>content_oid := Some ''1.2.3.4''\<rparr>), Some KSBA_SR_RUNNING)
   \<and> ksba_cms_parse (sample_env_oid ''1.2.840.113549.1.9.16.1.2'') (Some sample_fresh) True
     = Returns (KSBA_Unsupported_CMS_Object,
                Some (sample_fresh\<lparr>content_oid := Some ''1.2.840.113549.1.9.16.1.2''\<rparr>),
                Some KSBA_SR_RUNNING)
   \<and> ksba_cms_parse (sample_env_oid ''1.2.840.113549.1.7.2'') (Some sample_fresh) True
     = Returns (KSBA_No_Error,
                Some (sample_fresh\<lparr>content_oid := Some ''1.2.840.113549.1.7.2'',
                                   content_ct := KSBA_CT_SIGNED_DATA,
                                   content_handler := Some H_ct_parse_signed_data,
                                   stop_reason := KSBA_SR_GOT_CONTENT\<rparr>),
                Some KSBA_SR_GOT_CONTENT)"
proof -
  have new: "ksba_cms_set_reader_writer (ksba_cms_new sample_env) (Some \<lparr> r_input = [] \<rparr>) None
               = (KSBA_No_Error, Some sample_fresh)"
    by (simp add: ksba_cms_set_reader_writer_def ksba_cms_new_def sample_env_def sample_fresh_def)
  have init: "stop_reason sample_fresh = KSBA_SR_NONE"
    by (simp add: sample_fresh_def)
  have info: "cms_parse_content_info (sample_env_oid s) sample_fresh
                = (KSBA_No_Error, sample_fresh\<lparr>content_oid := Some s\<rparr>)" for s
    by (simp add: sample_env_oid_def)
  have oid: "content_oid (sample_fresh\<lparr>content_oid := Some s\<rparr>) = Some s" for s
    by simp
  note C6 = C6_parse_dispatch [OF init info oid]
  have unknown: "''1.2.3.4'' \<notin> set (map oid content_handlers)"
    by (simp add: content_handlers_def)
  have known: "''1.2.840.113549.1.7.2'' \<in> set (map oid content_handlers)"
              "''1.2.840.113549.1.7.2'' \<noteq> ''1.2.840.113549.1.9.16.1.2''"
    by (simp_all add: content_handlers_def)
  have c1: "ksba_cms_parse (sample_env_oid ''1.2.3.4'') (Some sample_fresh) True
     = Returns (KSBA_Unknown_CMS_Object,
                Some (sample_fresh\<lparr>content_oid := Some ''1.2.3.4''\<rparr>), Some KSBA_SR_RUNNING)"
    using C6 [of "''1.2.3.4''"] unknown by blast
  have c2: "ksba_cms_parse (sample_env_oid ''1.2.840.113549.1.9.16.1.2'') (Some sample_fresh) True
     = Returns (KSBA_Unsupported_CMS_Object,
                Some (sample_fresh\<lparr>content_oid := Some ''1.2.840.113549.1.9.16.1.2''\<rparr>),
                Some KSBA_SR_RUNNING)"
    using C6 [of "''1.2.840.113549.1.9.16.1.2''"] by blast
  from C6 [of "''1.2.840.113549.1.7.2''"] known obtain row h where
    row: "row \<in> set content_handlers" "oid row = ''1.2.840.113549.1.7.2''"
         "parse_handler row = Some h"
    and res: "ksba_cms_parse (sample_env_oid ''1.2.840.113549.1.7.2'') (Some sample_fresh) True
                = Returns (KSBA_No_Error,
                     Some (sample_fresh\<lparr>content_oid := Some ''1.2.840.113549.1.7.2'',
                                        content_ct := ct row, content_handler := Some h,
                                        stop_reason := KSBA_SR_GOT_CONTENT\<rparr>),
                     Some KSBA_SR_GOT_CONTENT)"
    by blast
  from row have "ct row = KSBA_CT_SIGNED_DATA \<and> h = H_ct_parse_signed_data"
    by (auto simp: content_handlers_def)
  with res have c3:
    "ksba_cms_parse (sample_env_oid ''1.2.840.113549.1.7.2'') (Some sample_fresh) True
     = Returns (KSBA_No_Error,
                Some (sample_fresh\<lparr>content_oid := Some ''1.2.840.113549.1.7.2'',
                                   content_ct := KSBA_CT_SIGNED_DATA,
                                   content_handler := Some H_ct_parse_signed_data,
                                   stop_reason := KSBA_SR_GOT_CONTENT\<rparr>),
                Some KSBA_SR_GOT_CONTENT)"
    by simp
  from new c1 c2 c3 show ?thesis by simp
qed

subsection \<open>Calls in a state outside the protocol\<close>

lemma stop_reason_same: "stop_reason c = r \<Longrightarrow> c\<lparr>stop_reason := r\<rparr> = c"
  by (cases c) simp

text \<open>
  C7. With the signed data parse handler installed, \<^verbatim>\<open>ksba_cms_parse\<close> on a container
  whose stored stop reason is \<^verbatim>\<open>RUNNING\<close> returns \<^verbatim>\<open>KSBA_Invalid_State\<close> and leaves
  the container as it is; so does \<^verbatim>\<open>ksba_cms_build\<close> with the signed data build
  handler installed. A stored stop reason that the handler has no state for (one that
  is none of the enumerators, or \<^verbatim>\<open>READY\<close> or \<^verbatim>\<open>NEED_SIG\<close> for the parser,
  \<^verbatim>\<open>NEED_HASH\<close> or \<^verbatim>\<open>READY\<close> for the builder) makes the call fail as well: it
  returns the error \<^verbatim>\<open>KSBA_Bug\<close>, and the stored stop reason is \<^verbatim>\<open>RUNNING\<close>
  afterwards.
\<close>

theorem C7_invalid_state:
  "(stop_reason c = KSBA_SR_RUNNING \<and> content_handler c = Some H_ct_parse_signed_data \<longrightarrow>
      ksba_cms_parse e (Some c) True
        = Returns (KSBA_Invalid_State, Some c, Some KSBA_SR_RUNNING))
   \<and> (stop_reason c = KSBA_SR_RUNNING \<and> content_handler c = Some H_ct_build_signed_data \<longrightarrow>
      ksba_cms_build e (Some c) True
        = Returns (KSBA_Invalid_State, Some c, Some KSBA_SR_RUNNING))
   \<and> (stop_reason c \<notin> {KSBA_SR_NONE, KSBA_SR_RUNNING, KSBA_SR_GOT_CONTENT, KSBA_SR_NEED_HASH,
                         KSBA_SR_BEGIN_DATA, KSBA_SR_END_DATA}
       \<and> content_handler c = Some H_ct_parse_signed_data \<longrightarrow>
      ksba_cms_parse e (Some c) True
        = Returns (KSBA_Bug, Some (c\<lparr>stop_reason := KSBA_SR_RUNNING\<rparr>), Some KSBA_SR_RUNNING))
   \<and> (stop_reason c \<notin> {KSBA_SR_NONE, KSBA_SR_RUNNING, KSBA_SR_GOT_CONTENT,
                         KSBA_SR_BEGIN_DATA, KSBA_SR_END_DATA, KSBA_SR_NEED_SIG}
       \<and> content_handler c = Some H_ct_build_signed_data \<longrightarrow>
      ksba_cms_build e (Some c) True
        = Returns (KSBA_Bug, Some (c\<lparr>stop_reason := KSBA_SR_RUNNING\<rparr>), Some KSBA_SR_RUNNING))"
  by (simp add: ksba_cms_parse_def ksba_cms_build_def run_handler_def
        ct_parse_signed_data_def ct_build_signed_data_def stop_reason_same)

theorem C7_invalid_state_witness:
  "ksba_cms_parse sample_env (Some (sample_at KSBA_SR_RUNNING)) True
     = Returns (KSBA_Invalid_State, Some (sample_at KSBA_SR_RUNNING), Some KSBA_SR_RUNNING)
   \<and> ksba_cms_build sample_env
        (Some ((sample_at KSBA_SR_RUNNING)\<lparr>content_handler := Some H_ct_build_signed_data\<rparr>)) True
     = Returns (KSBA_Invalid_State,
                Some ((sample_at KSBA_SR_RUNNING)\<lparr>content_handler := Some H_ct_build_signed_data\<rparr>),
                Some KSBA_SR_RUNNING)
   \<and> ksba_cms_parse sample_env (Some (sample_at (KSBA_SR_Undefined 99))) True
     = Returns (KSBA_Bug, Some (sample_at KSBA_SR_RUNNING), Some KSBA_SR_RUNNING)
   \<and> ksba_cms_parse sample_env (Some (sample_at KSBA_SR_NEED_SIG)) True
     = Returns (KSBA_Bug, Some (sample_at KSBA_SR_RUNNING), Some KSBA_SR_RUNNING)
   \<and> ksba_cms_build sample_env
        (Some ((sample_at (KSBA_SR_Undefined 99))\<lparr>content_handler := Some H_ct_build_signed_data\<rparr>))
        True
     = Returns (KSBA_Bug,
                Some ((sample_at KSBA_SR_RUNNING)\<lparr>content_handler := Some H_ct_build_signed_data\<rparr>),
                Some KSBA_SR_RUNNING)"
proof -
  let ?b = "\<lambda>r. (sample_at r)\<lparr>content_handler := Some H_ct_build_signed_data\<rparr>"
  have p: "stop_reason (sample_at r) = r"
          "content_handler (sample_at r) = Some H_ct_parse_signed_data"
          "stop_reason (?b r) = r"
          "content_handler (?b r) = Some H_ct_build_signed_data"
          "(sample_at r)\<lparr>stop_reason := KSBA_SR_RUNNING\<rparr> = sample_at KSBA_SR_RUNNING"
          "(?b r)\<lparr>stop_reason := KSBA_SR_RUNNING\<rparr> = ?b KSBA_SR_RUNNING" for r
    by (simp_all add: sample_at_def sample_one_def sample_parsed_def)
  show ?thesis
    using C7_invalid_state [of "sample_at KSBA_SR_RUNNING" sample_env]
          C7_invalid_state [of "?b KSBA_SR_RUNNING" sample_env]
          C7_invalid_state [of "sample_at (KSBA_SR_Undefined 99)" sample_env]
          C7_invalid_state [of "sample_at KSBA_SR_NEED_SIG" sample_env]
          C7_invalid_state [of "?b (KSBA_SR_Undefined 99)" sample_env]
    by (simp add: p)
qed

subsection \<open>The first step of the signed data builder\<close>

lemma build_signed_data_header_writer:
  "\<exists>err w. build_signed_data_header e c = (err, c\<lparr>writer := w\<rparr>)"
  unfolding build_signed_data_header_def by (auto split: prod.splits)

text \<open>
  C2, as the claim states it, fails. Two signers are added, the builder is started,
  and a digest is preset for the signer with index 1. The list then holds a record
  with a preset digest, but the START step clears the detached signature flag and
  stops with \<^verbatim>\<open>BEGIN_DATA\<close>: the code looks at the head of the list only.
\<close>

theorem C2_second_signer_digest_counterexample:
  "ksba_cms_add_signer sample_env (Some (sample_builder KSBA_SR_NONE [sample_signer 0]))
       (Some sample_cert)
     = (KSBA_No_Error, Some (sample_builder KSBA_SR_NONE [sample_signer 0, sample_signer 0]))
   \<and> ksba_cms_build sample_env
       (Some (sample_builder KSBA_SR_NONE [sample_signer 0, sample_signer 0])) True
     = Returns (KSBA_No_Error,
                Some (sample_builder KSBA_SR_GOT_CONTENT [sample_signer 0, sample_signer 0]),
                Some KSBA_SR_GOT_CONTENT)
   \<and> ksba_cms_set_message_digest sample_env
       (Some (sample_builder KSBA_SR_GOT_CONTENT [sample_signer 0, sample_signer 0])) 1
       (Some sample_digest) 20
     = Returns (KSBA_No_Error,
                Some (sample_builder KSBA_SR_GOT_CONTENT [sample_signer 0, sample_signer 20]))
   \<and> map msg_digest_len
         (cert_list (sample_builder KSBA_SR_GOT_CONTENT [sample_signer 0, sample_signer 20]))
     = [0, 20]
   \<and> (case ksba_cms_build sample_env
              (Some (sample_builder KSBA_SR_GOT_CONTENT [sample_signer 0, sample_signer 20])) True of
         Returns (err, Some c', r) \<Rightarrow>
           err = KSBA_No_Error \<and> \<not> detached_signature c' \<and> r = Some KSBA_SR_BEGIN_DATA
       | _ \<Rightarrow> False)"
  by (simp add: ksba_cms_add_signer_def ksba_cms_build_def ksba_cms_set_message_digest_def
        run_handler_def ct_build_signed_data_def build_signed_data_header_def write_oid_def
        wr_then_def write_digest_algos.simps ksba_cms_get_digest_algo_list_def mem_read_def
        sample_builder_def sample_signer_def sample_digest_def sample_env_defs)

text \<open>
  C2, amended. For every build of signed data entering the START state (stop reason
  \<^verbatim>\<open>GOT_CONTENT\<close>, signed data build handler installed), \<^verbatim>\<open>ksba_cms_build\<close>
  returns, and the detached signature flag of the container is set if and only if the
  signer list is not empty and its first record has a preset message digest. When the step succeeds the stop reason, stored and returned, is
  \<^verbatim>\<open>END_DATA\<close> if the flag is set and \<^verbatim>\<open>BEGIN_DATA\<close> otherwise; when it fails the
  stop reason is \<^verbatim>\<open>RUNNING\<close>.
\<close>

theorem C2_build_start_detached:
  assumes "stop_reason c = KSBA_SR_GOT_CONTENT"
      and "content_handler c = Some H_ct_build_signed_data"
  shows "\<exists>err c'.
           ksba_cms_build e (Some c) True = Returns (err, Some c', Some (stop_reason c'))
         \<and> detached_signature c'
             = (case cert_list c of [] \<Rightarrow> False | cl # cls \<Rightarrow> msg_digest_len cl \<noteq> 0)
         \<and> stop_reason c'
             = (if err \<noteq> KSBA_No_Error then KSBA_SR_RUNNING
                else if detached_signature c' then KSBA_SR_END_DATA
                else KSBA_SR_BEGIN_DATA)"
proof -
  let ?d = "case cert_list c of [] \<Rightarrow> False | cl # cls \<Rightarrow> msg_digest_len cl \<noteq> 0"
  let ?c1 = "c\<lparr>stop_reason := KSBA_SR_RUNNING, detached_signature := ?d\<rparr>"
  obtain err w where hdr: "build_signed_data_header e ?c1 = (err, ?c1\<lparr>writer := w\<rparr>)"
    using build_signed_data_header_writer [of e ?c1] by blast
  show ?thesis
  proof (cases "err = KSBA_No_Error")
    case True
    with assms hdr have
      "ksba_cms_build e (Some c) True
         = Returns (KSBA_No_Error,
                    Some (?c1\<lparr>writer := w,
                              stop_reason := (if ?d then KSBA_SR_END_DATA else KSBA_SR_BEGIN_DATA)\<rparr>),
                    Some (if ?d then KSBA_SR_END_DATA else KSBA_SR_BEGIN_DATA))"
      by (simp add: ksba_cms_build_def run_handler_def ct_build_signed_data_def)
    then show ?thesis by simp
  next
    case False
    with assms hdr have
      "ksba_cms_build e (Some c) True
         = Returns (err, Some (?c1\<lparr>writer := w\<rparr>), Some KSBA_SR_RUNNING)"
      by (simp add: ksba_cms_build_def run_handler_def ct_build_signed_data_def)
    with False show ?thesis by simp
  qed
qed

theorem C2_build_start_detached_witness:
  "(\<exists>err c'.
      ksba_cms_build sample_env (Some (sample_builder KSBA_SR_GOT_CONTENT [sample_signer 0])) True
        = Returns (err, Some c', Some (stop_reason c'))
      \<and> detached_signature c' = False
      \<and> stop_reason c' = (if err \<noteq> KSBA_No_Error then KSBA_SR_RUNNING else KSBA_SR_BEGIN_DATA))
   \<and> (\<exists>err c'.
      ksba_cms_build sample_env (Some (sample_builder KSBA_SR_GOT_CONTENT [sample_signer 20])) True
        = Returns (err, Some c', Some (stop_reason c'))
      \<and> detached_signature c' = True
      \<and> stop_reason c' = (if err \<noteq> KSBA_No_Error then KSBA_SR_RUNNING else KSBA_SR_END_DATA))
   \<and> (case ksba_cms_build sample_env
              (Some (sample_builder KSBA_SR_GOT_CONTENT [sample_signer 20])) True of
         Returns (err, Some c', r) \<Rightarrow>
           err = KSBA_No_Error \<and> detached_signature c' \<and> r = Some KSBA_SR_END_DATA
       | _ \<Rightarrow> False)"
proof -
  have pre: "stop_reason (sample_builder KSBA_SR_GOT_CONTENT cls) = KSBA_SR_GOT_CONTENT"
            "content_handler (sample_builder KSBA_SR_GOT_CONTENT cls) = Some H_ct_build_signed_data"
            "cert_list (sample_builder KSBA_SR_GOT_CONTENT cls) = cls" for cls
    by (simp_all add: sample_builder_def)
  have a: "\<exists>err c'.
      ksba_cms_build sample_env (Some (sample_builder KSBA_SR_GOT_CONTENT [sample_signer 0])) True
        = Returns (err, Some c', Some (stop_reason c'))
      \<and> detached_signature c' = False
      \<and> stop_reason c' = (if err \<noteq> KSBA_No_Error then KSBA_SR_RUNNING else KSBA_SR_BEGIN_DATA)"
    using C2_build_start_detached
            [of "sample_builder KSBA_SR_GOT_CONTENT [sample_signer 0]" sample_env]
    by (auto simp: pre sample_signer_def)
  have b: "\<exists>err c'.
      ksba_cms_build sample_env (Some (sample_builder KSBA_SR_GOT_CONTENT [sample_signer 20])) True
        = Returns (err, Some c', Some (stop_reason c'))
      \<and> detached_signature c' = True
      \<and> stop_reason c' = (if err \<noteq> KSBA_No_Error then KSBA_SR_RUNNING else KSBA_SR_END_DATA)"
    using C2_build_start_detached
            [of "sample_builder KSBA_SR_GOT_CONTENT [sample_signer 20]" sample_env]
    by (auto simp: pre sample_signer_def)
  have c: "(case ksba_cms_build sample_env
              (Some (sample_builder KSBA_SR_GOT_CONTENT [sample_signer 20])) True of
         Returns (err, Some c', r) \<Rightarrow>
           err = KSBA_No_Error \<and> detached_signature c' \<and> r = Some KSBA_SR_END_DATA
       | _ \<Rightarrow> False)"
    by (simp add: ksba_cms_build_def run_handler_def ct_build_signed_data_def
          build_signed_data_header_def write_oid_def wr_then_def
          write_digest_algos.simps ksba_cms_get_digest_algo_list_def
          sample_builder_def sample_signer_def sample_digest_def sample_env_defs)
  from a b c show ?thesis by blast
qed

subsection \<open>The signed attributes step of the builder\<close>

lemma attributes_loop_more_signers:
  assumes "attributes_loop e t xs ds si = Returns (KSBA_No_Error, xs', si')"
      and "length xs = length ds"
  shows "attributes_loop e t (xs @ y # ys) ds si = Returns (KSBA_Missing_Value, xs' @ y # ys, si')"
  using assms
proof (induction xs arbitrary: ds si xs' si')
  case Nil
  then show ?case by simp
next
  case (Cons x xs)
  from Cons.prems(2) obtain d ds' where ds: "ds = d # ds'"
    by (cases ds) auto
  from Cons.prems(1) ds obtain x' s1 xs1 where
    signer: "attributes_signer e t x d si = Returns (KSBA_No_Error, x', s1)"
    and rest: "attributes_loop e t xs ds' s1 = Returns (KSBA_No_Error, xs1, si')"
    and xs': "xs' = x' # xs1"
    by (auto split: outcome.splits prod.splits if_splits)
  from Cons.prems(2) ds have "length xs = length ds'" by simp
  from Cons.IH [OF rest this]
  have "attributes_loop e t (xs @ y # ys) ds' s1 = Returns (KSBA_Missing_Value, xs1 @ y # ys, si')" .
  with signer ds xs' show ?case by simp
qed

text \<open>
  The three tests of \<^verbatim>\<open>build_signed_data_attributes\<close> that return
  \<^verbatim>\<open>KSBA_Missing_Value\<close>, once the end tag is written and the CMS tree created: no
  signer, no digest algorithm, and a signer for whom the digest algorithm list has
  no record (the rounds of the signers before it succeeding).
\<close>

lemma build_signed_data_attributes_missing_value:
  assumes "ber_write_tl e (writer c) TYPE_NONE CLASS_UNIVERSAL False 0 = (KSBA_No_Error, w)"
      and "asn_create_tree e ''cms'' = (KSBA_No_Error, t)"
  shows "(cert_list c = [] \<longrightarrow>
            build_signed_data_attributes e c = Returns (KSBA_Missing_Value, c\<lparr>writer := w\<rparr>))
       \<and> (digest_algos c = [] \<longrightarrow>
            build_signed_data_attributes e c = Returns (KSBA_Missing_Value, c\<lparr>writer := w\<rparr>))
       \<and> (\<forall>xs y ys xs' rt img.
            cert_list c = xs @ y # ys \<and> xs \<noteq> [] \<and> length xs = length (digest_algos c)
            \<and> attributes_loop e t xs (digest_algos c) (signer_info_root c, signer_info_image c)
                = Returns (KSBA_No_Error, xs', rt, img) \<longrightarrow>
            build_signed_data_attributes e c
              = Returns (KSBA_Missing_Value,
                         c\<lparr>writer := w, cert_list := xs' @ y # ys,
                           signer_info_root := rt, signer_info_image := img\<rparr>))"
proof (intro conjI allI impI)
  assume "cert_list c = []"
  with assms show "build_signed_data_attributes e c = Returns (KSBA_Missing_Value, c\<lparr>writer := w\<rparr>)"
    by (simp add: build_signed_data_attributes_def)
next
  assume "digest_algos c = []"
  with assms show "build_signed_data_attributes e c = Returns (KSBA_Missing_Value, c\<lparr>writer := w\<rparr>)"
    by (simp add: build_signed_data_attributes_def)
next
  fix xs y ys xs' rt img
  assume a: "cert_list c = xs @ y # ys \<and> xs \<noteq> [] \<and> length xs = length (digest_algos c)
            \<and> attributes_loop e t xs (digest_algos c) (signer_info_root c, signer_info_image c)
                = Returns (KSBA_No_Error, xs', rt, img)"
  then have ne: "cert_list c \<noteq> []" "digest_algos c \<noteq> []" by auto
  from a have
    "attributes_loop e t (cert_list c) (digest_algos c) (signer_info_root c, signer_info_image c)
       = Returns (KSBA_Missing_Value, xs' @ y # ys, rt, img)"
    using attributes_loop_more_signers [of e t xs "digest_algos c" _ xs' "(rt, img)" y ys]
    by simp
  with assms ne show "build_signed_data_attributes e c
              = Returns (KSBA_Missing_Value,
                         c\<lparr>writer := w, cert_list := xs' @ y # ys,
                           signer_info_root := rt, signer_info_image := img\<rparr>)"
    by (simp add: build_signed_data_attributes_def)
qed

text \<open>
  The three tests on sample containers, after the end tag \<open>00 00\<close> is written: no
  signer; a signer and no digest algorithm; two signers with preset digests and one
  digest algorithm. In the last case the first signer has its attributes stored, in
  the tree the encoder has been through, and the second has no record.
\<close>

lemma build_signed_data_attributes_missing_value_samples:
  "build_signed_data_attributes sample_env (sample_builder KSBA_SR_RUNNING [])
     = Returns (KSBA_Missing_Value,
                (sample_builder KSBA_SR_RUNNING [])\<lparr>writer := Some \<lparr> w_output = [0x00, 0x00] \<rparr>\<rparr>)
   \<and> build_signed_data_attributes sample_env
        ((sample_builder KSBA_SR_RUNNING [sample_signer 20])\<lparr>digest_algos := []\<rparr>)
     = Returns (KSBA_Missing_Value,
                (sample_builder KSBA_SR_RUNNING [sample_signer 20])
                  \<lparr>digest_algos := [], writer := Some \<lparr> w_output = [0x00, 0x00] \<rparr>\<rparr>)
   \<and> build_signed_data_attributes sample_env
        (sample_builder KSBA_SR_RUNNING [sample_signer 20, sample_signer 20])
     = Returns (KSBA_Missing_Value,
                (sample_builder KSBA_SR_RUNNING [sample_signer 20, sample_signer 20])
                  \<lparr>writer := Some \<lparr> w_output = [0x00, 0x00] \<rparr>,
                   cert_list := [sample_signer_done, sample_signer 20],
                   signer_info_root := Some (fst (snd (sample_encode template_SignerInfos))),
                   signer_info_image := Some [0x30, 0x00]\<rparr>)"
proof -
  have w: "ber_write_tl sample_env (writer (sample_builder KSBA_SR_RUNNING cls))
             TYPE_NONE CLASS_UNIVERSAL False 0
           = (KSBA_No_Error, Some \<lparr> w_output = [0x00, 0x00] \<rparr>)"
          "ber_write_tl sample_env
             (writer ((sample_builder KSBA_SR_RUNNING cls)\<lparr>digest_algos := []\<rparr>))
             TYPE_NONE CLASS_UNIVERSAL False 0
           = (KSBA_No_Error, Some \<lparr> w_output = [0x00, 0x00] \<rparr>)" for cls
    by (simp_all add: sample_builder_def sample_env_defs)
  have t: "asn_create_tree sample_env ''cms'' = (KSBA_No_Error, \<lparr> parse_tree = None \<rparr>)"
    by (simp add: sample_env_def)
  have one: "attributes_signer sample_env \<lparr> parse_tree = None \<rparr> (sample_signer 20)
               (Some ''1.3.14.3.2.26'') (None, None)
             = Returns (KSBA_No_Error, sample_signer_done,
                        Some (fst (snd (sample_encode template_SignerInfos))), Some [0x30, 0x00])"
    by (simp add: attributes_signer_def at_node_def signed_attrs_element_def
          ksba_asn_find_node_def template_Attribute_def template_SignerInfos_def
          template_sid_def template_AlgorithmIdentifier_def template_signedAttrs_def
          template_leaf_def sample_signer_done_def sample_signer_def sample_env_defs)
  have c1: "build_signed_data_attributes sample_env (sample_builder KSBA_SR_RUNNING [])
     = Returns (KSBA_Missing_Value,
                (sample_builder KSBA_SR_RUNNING [])\<lparr>writer := Some \<lparr> w_output = [0x00, 0x00] \<rparr>\<rparr>)"
    using build_signed_data_attributes_missing_value [OF w(1) t, of "[]"]
    by (simp add: sample_builder_def)
  have c2: "build_signed_data_attributes sample_env
        ((sample_builder KSBA_SR_RUNNING [sample_signer 20])\<lparr>digest_algos := []\<rparr>)
     = Returns (KSBA_Missing_Value,
                (sample_builder KSBA_SR_RUNNING [sample_signer 20])
                  \<lparr>digest_algos := [], writer := Some \<lparr> w_output = [0x00, 0x00] \<rparr>\<rparr>)"
    using build_signed_data_attributes_missing_value [OF w(2) t, of "[sample_signer 20]"]
    by simp
  have c3: "build_signed_data_attributes sample_env
        (sample_builder KSBA_SR_RUNNING [sample_signer 20, sample_signer 20])
     = Returns (KSBA_Missing_Value,
                (sample_builder KSBA_SR_RUNNING [sample_signer 20, sample_signer 20])
                  \<lparr>writer := Some \<lparr> w_output = [0x00, 0x00] \<rparr>,
                   cert_list := [sample_signer_done, sample_signer 20],
                   signer_info_root := Some (fst (snd (sample_encode template_SignerInfos))),
                   signer_info_image := Some [0x30, 0x00]\<rparr>)"
    using build_signed_data_attributes_missing_value
            [OF w(1) t, of "[sample_signer 20, sample_signer 20]", THEN conjunct2, THEN conjunct2,
             rule_format,
             of "[sample_signer 20]" "sample_signer 20" "[]" "[sample_signer_done]"
                "Some (fst (snd (sample_encode template_SignerInfos)))" "Some [0x30, 0x00]"]
          one
    by (simp add: sample_builder_def)
  from c1 c2 c3 show ?thesis by simp
qed

text \<open>
  The round of a signer with no preset message digest has no test that returns
  \<^verbatim>\<open>KSBA_Missing_Value\<close>. With assertions compiled in it never completes: it ends in
  the failed assertion, unless a step before the assertion has returned its error.
\<close>

lemma attributes_signer_without_digest:
  assumes "msg_digest_len cl = 0" and "\<not> ndebug e"
  shows "attributes_signer e t cl d si = Faults Assertion_Failed
       \<or> (\<exists>err. err \<noteq> KSBA_No_Error \<and> attributes_signer e t cl d si = Returns (err, cl, si))"
  using assms
  by (auto simp: attributes_signer_def split: option.splits prod.splits)

text \<open>
  C5. An empty signer list and an empty digest algorithm list return
  \<^verbatim>\<open>KSBA_Missing_Value\<close>, as the claim says. A signer with no preset message digest
  does not: the code states the requirement as
  \<^verbatim>\<open>assert (certlist && certlist->msg_digest_len)\<close> and has no test that returns an
  error for it (\<^verbatim>\<open>ct_build_signed_data\<close> notes the missing test:
  \<^verbatim>\<open>fixme: check that the message digest has been set\<close>). On a container that gets
  one signer through \<^verbatim>\<open>ksba_cms_add_signer\<close> and no digest, \<^verbatim>\<open>ksba_cms_build\<close> stops
  at \<^verbatim>\<open>GOT_CONTENT\<close>, then at \<^verbatim>\<open>BEGIN_DATA\<close>; the call after that fails the
  assertion, and in a build with \<^verbatim>\<open>NDEBUG\<close> it returns success, stops at
  \<^verbatim>\<open>NEED_SIG\<close> and keeps signed attributes made from a digest of no bytes.
\<close>

theorem C5_signer_without_digest:
  "ksba_cms_add_signer sample_env (Some (sample_builder KSBA_SR_NONE [])) (Some sample_cert)
     = (KSBA_No_Error, Some (sample_builder KSBA_SR_NONE [sample_signer 0]))
   \<and> ksba_cms_build sample_env (Some (sample_builder KSBA_SR_NONE [sample_signer 0])) True
     = Returns (KSBA_No_Error,
                Some (sample_builder KSBA_SR_GOT_CONTENT [sample_signer 0]),
                Some KSBA_SR_GOT_CONTENT)
   \<and> map msg_digest_len (cert_list (sample_builder KSBA_SR_GOT_CONTENT [sample_signer 0])) = [0]
   \<and> (case ksba_cms_build sample_env
              (Some (sample_builder KSBA_SR_GOT_CONTENT [sample_signer 0])) True of
         Returns (err, Some c1, r) \<Rightarrow>
           err = KSBA_No_Error \<and> r = Some KSBA_SR_BEGIN_DATA
           \<and> cert_list c1 = [sample_signer 0]
           \<and> ksba_cms_build sample_env (Some c1) True = Faults Assertion_Failed
           \<and> (case ksba_cms_build (sample_env\<lparr>ndebug := True\<rparr>) (Some c1) True of
                Returns (err2, Some c2, r2) \<Rightarrow>
                  err2 = KSBA_No_Error \<and> r2 = Some KSBA_SR_NEED_SIG
                  \<and> map msg_digest_len (cert_list c2) = [0]
                  \<and> map attr_image (cert_list c2) = [Some [0x30, 0x00]]
              | _ \<Rightarrow> False)
       | _ \<Rightarrow> False)
   \<and> build_signed_data_attributes sample_env (sample_builder KSBA_SR_RUNNING [])
     = Returns (KSBA_Missing_Value,
                (sample_builder KSBA_SR_RUNNING [])\<lparr>writer := Some \<lparr> w_output = [0x00, 0x00] \<rparr>\<rparr>)
   \<and> build_signed_data_attributes sample_env
        ((sample_builder KSBA_SR_RUNNING [sample_signer 0])\<lparr>digest_algos := []\<rparr>)
     = Returns (KSBA_Missing_Value,
                (sample_builder KSBA_SR_RUNNING [sample_signer 0])
                  \<lparr>digest_algos := [], writer := Some \<lparr> w_output = [0x00, 0x00] \<rparr>\<rparr>)"
  by (simp add: ksba_cms_add_signer_def ksba_cms_build_def run_handler_def
        ct_build_signed_data_def build_signed_data_header_def write_oid_def wr_then_def
        write_digest_algos.simps ksba_cms_get_digest_algo_list_def
        build_signed_data_attributes_def attributes_signer_def at_node_def
        signed_attrs_element_def ksba_asn_find_node_def template_Attribute_def
        template_SignerInfos_def template_sid_def template_AlgorithmIdentifier_def
        template_signedAttrs_def template_leaf_def
        sample_builder_def sample_signer_def sample_env_defs)

subsection \<open>An error of the engine is final\<close>

lemma build_signed_data_header_keeps:
  assumes "build_signed_data_header e c = (err, c')"
  shows "stop_reason c' = stop_reason c \<and> content_handler c' = content_handler c"
  using assms build_signed_data_header_writer [of e c] by auto

lemma build_signed_data_attributes_keeps:
  assumes "build_signed_data_attributes e c = Returns (err, c')"
  shows "stop_reason c' = stop_reason c \<and> content_handler c' = content_handler c"
  using assms
  by (auto simp: build_signed_data_attributes_def
           split: prod.splits if_splits outcome.splits)

lemma build_signed_data_rest_keeps:
  assumes "build_signed_data_rest e c = Returns (err, c')"
  shows "stop_reason c' = stop_reason c \<and> content_handler c' = content_handler c"
  using assms
  by (auto simp: build_signed_data_rest_def
           split: prod.splits if_splits outcome.splits)

lemma ct_build_signed_data_error:
  assumes "ct_build_signed_data e c = Returns (err, c')" and "err \<noteq> KSBA_No_Error"
  shows "stop_reason c' = KSBA_SR_RUNNING \<and> content_handler c' = content_handler c"
proof -
  let ?c1 = "c\<lparr>stop_reason := KSBA_SR_RUNNING\<rparr>"
  let ?cd = "?c1\<lparr>detached_signature :=
                   (case cert_list ?c1 of [] \<Rightarrow> False | cl # cls \<Rightarrow> msg_digest_len cl \<noteq> 0)\<rparr>"
  consider (start) "stop_reason c = KSBA_SR_GOT_CONTENT"
    | (ready) "stop_reason c = KSBA_SR_BEGIN_DATA \<or> stop_reason c = KSBA_SR_END_DATA"
    | (sig) "stop_reason c = KSBA_SR_NEED_SIG"
    | (other) "stop_reason c \<notin> {KSBA_SR_GOT_CONTENT, KSBA_SR_BEGIN_DATA, KSBA_SR_END_DATA,
                                 KSBA_SR_NEED_SIG}"
    by auto
  then show ?thesis
  proof cases
    case start
    with assms have "build_signed_data_header e ?cd = (err, c')"
      by (auto simp: ct_build_signed_data_def Let_def split: prod.splits if_splits)
    from build_signed_data_header_keeps [OF this] show ?thesis by simp
  next
    case ready
    with assms have "build_signed_data_attributes e ?c1 = Returns (err, c')"
      by (auto simp: ct_build_signed_data_def Let_def split: prod.splits if_splits outcome.splits)
    from build_signed_data_attributes_keeps [OF this] show ?thesis by simp
  next
    case sig
    with assms have "build_signed_data_rest e ?c1 = Returns (err, c')"
      by (auto simp: ct_build_signed_data_def Let_def split: prod.splits if_splits outcome.splits)
    from build_signed_data_rest_keeps [OF this] show ?thesis by simp
  next
    case other
    with assms show ?thesis
      by (auto simp: ct_build_signed_data_def Let_def split: if_splits)
  qed
qed

lemma ct_parse_signed_data_error:
  assumes "parser_keeps_protocol e"
      and "ct_parse_signed_data e c = (err, c')" and "err \<noteq> KSBA_No_Error"
  shows "stop_reason c' = KSBA_SR_RUNNING \<and> content_handler c' = content_handler c"
proof -
  let ?c1 = "c\<lparr>stop_reason := KSBA_SR_RUNNING\<rparr>"
  from assms(1) have keep:
    "stop_reason (snd (cms_parse_signed_data_part_1 e ?c1)) = KSBA_SR_RUNNING"
    "content_handler (snd (cms_parse_signed_data_part_1 e ?c1)) = content_handler c"
    "stop_reason (snd (cms_parse_signed_data_part_2 e ?c1)) = KSBA_SR_RUNNING"
    "content_handler (snd (cms_parse_signed_data_part_2 e ?c1)) = content_handler c"
    by (simp_all add: parser_keeps_protocol_def)
  consider (start) "stop_reason c = KSBA_SR_GOT_CONTENT"
    | (hash) "stop_reason c = KSBA_SR_NEED_HASH \<or> stop_reason c = KSBA_SR_END_DATA"
    | (data) "stop_reason c = KSBA_SR_BEGIN_DATA"
    | (other) "stop_reason c \<notin> {KSBA_SR_GOT_CONTENT, KSBA_SR_NEED_HASH, KSBA_SR_END_DATA,
                                 KSBA_SR_BEGIN_DATA}"
    by auto
  then show ?thesis
  proof cases
    case start
    with assms(2,3) have "c' = snd (cms_parse_signed_data_part_1 e ?c1)"
      by (auto simp: ct_parse_signed_data_def Let_def split: prod.splits if_splits)
    with keep show ?thesis by simp
  next
    case hash
    with assms(2,3) have "c' = snd (cms_parse_signed_data_part_2 e ?c1)"
      by (auto simp: ct_parse_signed_data_def Let_def split: prod.splits if_splits)
    with keep show ?thesis by simp
  next
    case data
    with assms(2,3) show ?thesis
      by (auto simp: ct_parse_signed_data_def Let_def split: if_splits)
  next
    case other
    with assms(2,3) show ?thesis
      by (auto simp: ct_parse_signed_data_def Let_def split: if_splits)
  qed
qed

lemma run_handler_error:
  assumes "parser_keeps_protocol e"
      and "content_handler c = Some H_ct_parse_signed_data
           \<or> content_handler c = Some H_ct_build_signed_data"
      and "run_handler e c = Returns (err, cmsp', r)" and "err \<noteq> KSBA_No_Error"
  shows "\<exists>c'. cmsp' = Some c' \<and> stop_reason c' = KSBA_SR_RUNNING
             \<and> content_handler c' = content_handler c \<and> r = Some KSBA_SR_RUNNING"
  using assms(2)
proof
  assume h: "content_handler c = Some H_ct_parse_signed_data"
  obtain e1 c1 where p: "ct_parse_signed_data e c = (e1, c1)"
    by (cases "ct_parse_signed_data e c") auto
  with h assms(3,4) have "e1 = err" "cmsp' = Some c1" "r = Some KSBA_SR_RUNNING"
    by (auto simp: run_handler_def split: if_splits)
  with ct_parse_signed_data_error [OF assms(1) p] assms(4) show ?thesis by simp
next
  assume h: "content_handler c = Some H_ct_build_signed_data"
  with assms(3,4) obtain c1 where
    b: "ct_build_signed_data e c = Returns (err, c1)" "cmsp' = Some c1" "r = Some KSBA_SR_RUNNING"
    by (auto simp: run_handler_def split: outcome.splits prod.splits if_splits)
  with ct_build_signed_data_error [OF b(1) assms(4)] show ?thesis by simp
qed

lemma call_entry_running:
  assumes "stop_reason c = KSBA_SR_RUNNING"
      and "content_handler c = Some H_ct_parse_signed_data
           \<or> content_handler c = Some H_ct_build_signed_data"
  shows "call_entry e k (Some c) = Returns (KSBA_Invalid_State, Some c, Some KSBA_SR_RUNNING)"
  using assms
  by (cases k)
     (auto simp: call_entry_def ksba_cms_parse_def ksba_cms_build_def run_handler_def
                 ct_parse_signed_data_def ct_build_signed_data_def stop_reason_same)

lemma later_calls_running:
  assumes "stop_reason c = KSBA_SR_RUNNING"
      and "content_handler c = Some H_ct_parse_signed_data
           \<or> content_handler c = Some H_ct_build_signed_data"
  shows "later_calls e ks (Some c) = Returns (replicate (length ks) KSBA_Invalid_State, Some c)"
  by (induction ks) (simp_all add: call_entry_running [OF assms])

text \<open>
  C10. Let a call of \<^verbatim>\<open>ksba_cms_parse\<close> or \<^verbatim>\<open>ksba_cms_build\<close> enter the signed data
  handler (the parse or the build handler is installed, the stored stop reason is
  not the initial one) and return an error, whatever its source. Then the stored
  stop reason is \<^verbatim>\<open>RUNNING\<close>, the stop reason handed back is \<^verbatim>\<open>RUNNING\<close>, and every
  later call of \<^verbatim>\<open>ksba_cms_parse\<close> or \<^verbatim>\<open>ksba_cms_build\<close> on the container returns
  \<^verbatim>\<open>KSBA_Invalid_State\<close> and leaves the container as it is. The two parser parts of
  the environment are taken not to touch the stop reason and the handler.
\<close>

theorem C10_engine_error_is_final:
  assumes "parser_keeps_protocol e"
      and "content_handler c = Some H_ct_parse_signed_data
           \<or> content_handler c = Some H_ct_build_signed_data"
      and "stop_reason c \<noteq> KSBA_SR_NONE"
      and "call_entry e k (Some c) = Returns (err, cmsp', r)"
      and "err \<noteq> KSBA_No_Error"
  shows "\<exists>c'. cmsp' = Some c' \<and> stop_reason c' = KSBA_SR_RUNNING \<and> r = Some KSBA_SR_RUNNING
             \<and> (\<forall>ks. later_calls e ks cmsp'
                        = Returns (replicate (length ks) KSBA_Invalid_State, cmsp'))"
proof -
  from assms(3,4) have "run_handler e c = Returns (err, cmsp', r)"
    by (cases k) (simp_all add: call_entry_def ksba_cms_parse_def ksba_cms_build_def)
  from run_handler_error [OF assms(1,2) this assms(5)] obtain c' where
    c': "cmsp' = Some c'" "stop_reason c' = KSBA_SR_RUNNING"
        "content_handler c' = content_handler c" "r = Some KSBA_SR_RUNNING"
    by blast
  from c'(3) assms(2) have h: "content_handler c' = Some H_ct_parse_signed_data
           \<or> content_handler c' = Some H_ct_build_signed_data"
    by simp
  have "\<forall>ks. later_calls e ks (Some c')
               = Returns (replicate (length ks) KSBA_Invalid_State, Some c')"
    using later_calls_running [OF c'(2) h] by blast
  with c' show ?thesis by simp
qed

text \<open>
  Two runs on sample containers. The parser is called at \<^verbatim>\<open>BEGIN_DATA\<close> with no hash
  function registered and returns \<^verbatim>\<open>KSBA_Missing_Action\<close>; the builder is called at
  \<^verbatim>\<open>BEGIN_DATA\<close> with no signer and returns \<^verbatim>\<open>KSBA_Missing_Value\<close> from inside its
  action. Every call after that returns \<^verbatim>\<open>KSBA_Invalid_State\<close>.
\<close>

theorem C10_engine_error_is_final_witness:
  "parser_keeps_protocol sample_env
   \<and> call_entry sample_env Parse (Some ((sample_at KSBA_SR_BEGIN_DATA)\<lparr>hash_fnc := None\<rparr>))
     = Returns (KSBA_Missing_Action,
                Some ((sample_at KSBA_SR_RUNNING)\<lparr>hash_fnc := None\<rparr>), Some KSBA_SR_RUNNING)
   \<and> later_calls sample_env [Parse, Build, Parse]
        (Some ((sample_at KSBA_SR_RUNNING)\<lparr>hash_fnc := None\<rparr>))
     = Returns ([KSBA_Invalid_State, KSBA_Invalid_State, KSBA_Invalid_State],
                Some ((sample_at KSBA_SR_RUNNING)\<lparr>hash_fnc := None\<rparr>))
   \<and> call_entry sample_env Build (Some (sample_builder KSBA_SR_BEGIN_DATA []))
     = Returns (KSBA_Missing_Value,
                Some ((sample_builder KSBA_SR_RUNNING [])
                        \<lparr>writer := Some \<lparr> w_output = [0x00, 0x00] \<rparr>\<rparr>),
                Some KSBA_SR_RUNNING)
   \<and> later_calls sample_env [Build, Parse]
        (Some ((sample_builder KSBA_SR_RUNNING [])\<lparr>writer := Some \<lparr> w_output = [0x00, 0x00] \<rparr>\<rparr>))
     = Returns ([KSBA_Invalid_State, KSBA_Invalid_State],
                Some ((sample_builder KSBA_SR_RUNNING [])
                        \<lparr>writer := Some \<lparr> w_output = [0x00, 0x00] \<rparr>\<rparr>))"
proof -
  let ?p = "(sample_at KSBA_SR_BEGIN_DATA)\<lparr>hash_fnc := None\<rparr>"
  let ?p' = "(sample_at KSBA_SR_RUNNING)\<lparr>hash_fnc := None\<rparr>"
  let ?b = "sample_builder KSBA_SR_BEGIN_DATA []"
  let ?b' = "(sample_builder KSBA_SR_RUNNING [])\<lparr>writer := Some \<lparr> w_output = [0x00, 0x00] \<rparr>\<rparr>"
  have keeps: "parser_keeps_protocol sample_env"
    by (simp add: parser_keeps_protocol_def sample_env_def)
  have hp: "content_handler ?p = Some H_ct_parse_signed_data
            \<or> content_handler ?p = Some H_ct_build_signed_data"
           "stop_reason ?p \<noteq> KSBA_SR_NONE"
    by (simp_all add: sample_at_def sample_one_def sample_parsed_def)
  have hb: "content_handler ?b = Some H_ct_parse_signed_data
            \<or> content_handler ?b = Some H_ct_build_signed_data"
           "stop_reason ?b \<noteq> KSBA_SR_NONE"
    by (simp_all add: sample_builder_def)
  have rp: "call_entry sample_env Parse (Some ?p)
              = Returns (KSBA_Missing_Action, Some ?p', Some KSBA_SR_RUNNING)"
    by (simp add: call_entry_def ksba_cms_parse_def run_handler_def ct_parse_signed_data_def
          sample_at_def sample_one_def sample_parsed_def)
  have rb: "call_entry sample_env Build (Some ?b)
              = Returns (KSBA_Missing_Value, Some ?b', Some KSBA_SR_RUNNING)"
    by (simp add: call_entry_def ksba_cms_build_def run_handler_def ct_build_signed_data_def
          build_signed_data_attributes_def sample_builder_def sample_env_defs)
  have lp: "later_calls sample_env [Parse, Build, Parse] (Some ?p')
              = Returns ([KSBA_Invalid_State, KSBA_Invalid_State, KSBA_Invalid_State], Some ?p')"
  proof -
    from C10_engine_error_is_final [OF keeps hp rp]
    have "\<forall>ks. later_calls sample_env ks (Some ?p')
                 = Returns (replicate (length ks) KSBA_Invalid_State, Some ?p')"
      by simp
    then have "later_calls sample_env [Parse, Build, Parse] (Some ?p')
                 = Returns (replicate (length [Parse, Build, Parse]) KSBA_Invalid_State, Some ?p')"
      by (rule spec)
    then show ?thesis by (simp del: later_calls.simps)
  qed
  have lb: "later_calls sample_env [Build, Parse] (Some ?b')
              = Returns ([KSBA_Invalid_State, KSBA_Invalid_State], Some ?b')"
  proof -
    from C10_engine_error_is_final [OF keeps hb rb]
    have "\<forall>ks. later_calls sample_env ks (Some ?b')
                 = Returns (replicate (length ks) KSBA_Invalid_State, Some ?b')"
      by simp
    then have "later_calls sample_env [Build, Parse] (Some ?b')
                 = Returns (replicate (length [Build, Parse]) KSBA_Invalid_State, Some ?b')"
      by (rule spec)
    then show ?thesis by (simp del: later_calls.simps)
  qed
  from keeps rp lp rb lb show ?thesis by simp
qed

end
